theory Spec2Isabelle
  imports Complex_Main
begin

section \<open>Shared schema (shared/schema.ts)\<close>

text \<open>
  The text columns that the schema comments restrict to a fixed set of literals are
  datatypes; JavaScript numbers are exact rationals extended by the two special values
  that the arithmetic of the routes can produce on non-negative operands. The project
  status \<open>COMPLETED\<close> is written \<open>COMPLETED_PROJECT\<close>, apart from the sync state of
  the same name.
\<close>

datatype complexity_tier = SIMPLE | MEDIUM | COMPLEX

datatype migration_status = FULLY_AUTO | PARTIAL | MANUAL_REDESIGN

datatype object_type = WORKFLOW | MAPPING | SESSION | TRANSFORMATION | SOURCE | TARGET

datatype project_status = DISCOVERY | ASSESSMENT | MIGRATION | COMPLETED_PROJECT

datatype connection_type = REST_API | PMREP

datatype sync_type = FULL | INCREMENTAL

datatype sync_state = SYNCING | COMPLETED | FAILED

datatype js_number = Num rat | NaN | Infinity

datatype error = Error string

record RepositoryConnection =
  rc_id :: string
  rc_name :: string
  rc_hostname :: string
  rc_port :: int
  rc_repositoryName :: string
  rc_username :: string
  rc_isActive :: bool
  rc_lastConnected :: "nat option"
  rc_connectionType :: connection_type
  rc_apiVersion :: "string option"
  rc_createdAt :: nat

record InsertMigrationProject =
  ip_name :: string
  ip_description :: "string option"
  ip_repositoryConnectionId :: string
  ip_status :: project_status
  ip_autoMigrationPercentage :: "rat option"
  ip_totalObjects :: "int option"
  ip_migratedObjects :: "int option"

record MigrationProject =
  mp_id :: string
  mp_name :: string
  mp_description :: "string option"
  mp_repositoryConnectionId :: string
  mp_status :: project_status
  mp_autoMigrationPercentage :: "js_number option"
  mp_totalObjects :: "js_number option"
  mp_migratedObjects :: "js_number option"
  mp_createdAt :: nat
  mp_updatedAt :: nat

subsection \<open>Metadata of a discovered object\<close>

text \<open>
  The REST adapter reads loosely typed JSON (\<open>any\<close>). A raw record carries the
  properties the adapter reads, each possibly absent. A property that is present is taken
  to have the type the TypeScript interfaces declare for it. The metadata of a discovered
  object is the raw record it came from (REST) or the line of output it was parsed from
  (pmrep).
\<close>

record raw_record =
  r_name :: "string option"
  r_folder :: "string option"
  r_isValid :: "bool option"
  r_sessions :: "string list option"
  r_dependencies :: "string list option"
  r_transformations :: "string list option"
  r_sources :: "string list option"
  r_targets :: "string list option"
  r_mappingName :: "string option"
  r_sessionType :: "string option"
  r_type :: "string option"
  r_connectionName :: "string option"
  r_expressions :: "string list option"

datatype metadata = RestRecord raw_record | RawOutput string

subsection \<open>Persisted entities\<close>

record InsertPowerCenterObject =
  io_projectId :: string
  io_objectName :: "string option"
  io_objectType :: object_type
  io_folderName :: "string option"
  io_complexity :: complexity_tier
  io_migrationStatus :: migration_status
  io_automationCoverage :: rat
  io_dependencies :: "string list"
  io_metadata :: metadata

record PowerCenterObject =
  pco_id :: string
  pco_projectId :: string
  pco_objectName :: "string option"
  pco_objectType :: object_type
  pco_folderName :: "string option"
  pco_complexity :: complexity_tier
  pco_migrationStatus :: migration_status
  pco_automationCoverage :: rat
  pco_dependencies :: "string list"
  pco_metadata :: metadata
  pco_lastScanned :: nat

datatype assessment_type = COMPLEXITY | COMPATIBILITY | DEPENDENCY

record InsertAssessmentResult =
  ia_projectId :: string
  ia_objectId :: string
  ia_assessmentType :: assessment_type
  ia_result :: complexity_tier
  ia_confidence :: int
  ia_recommendations :: "string list"
  ia_issues_automationCoverage :: int
  ia_estimatedEffort :: int

record AssessmentResult =
  ar_id :: string
  ar_projectId :: string
  ar_objectId :: string
  ar_assessmentType :: assessment_type
  ar_result :: complexity_tier
  ar_confidence :: int
  ar_recommendations :: "string list"
  ar_issues_automationCoverage :: int
  ar_estimatedEffort :: int
  ar_createdAt :: nat

record SyncStatus =
  sy_id :: string
  sy_projectId :: string
  sy_lastSyncTime :: nat
  sy_syncType :: sync_type
  sy_status :: sync_state
  sy_itemsProcessed :: nat
  sy_errors :: "string list option"

section \<open>In-memory storage (MemStorage)\<close>

text \<open>
  A JavaScript \<open>Map\<close> keeps its keys in insertion order; \<open>set\<close> on a key that is
  present replaces the value in place, \<open>get\<close> on an absent key gives \<open>undefined\<close>.
\<close>

fun map_set :: "'k \<Rightarrow> 'v \<Rightarrow> ('k \<times> 'v) list \<Rightarrow> ('k \<times> 'v) list" where
  "map_set k v [] = [(k, v)]"
| "map_set k v ((k', v') # ps) = (if k' = k then (k, v) # ps else (k', v') # map_set k v ps)"

fun map_get :: "('k \<times> 'v) list \<Rightarrow> 'k \<Rightarrow> 'v option" where
  "map_get [] k = None"
| "map_get ((k', v') # ps) k = (if k' = k then Some v' else map_get ps k)"

definition map_values :: "('k \<times> 'v) list \<Rightarrow> 'v list" where
  "map_values m = map snd m"

record MemStorage =
  repositoryConnections :: "(string \<times> RepositoryConnection) list"
  migrationProjects :: "(string \<times> MigrationProject) list"
  powerCenterObjects :: "(string \<times> PowerCenterObject) list"
  assessmentResults :: "(string \<times> AssessmentResult) list"
  syncStatuses :: "(string \<times> SyncStatus) list"

text \<open>
  \<open>generateId()\<close> and \<open>new Date()\<close> read the clock and a random source; the values
  they return are parameters of the model (\<open>newId\<close>, \<open>now\<close>).

  The object literal of \<open>createMigrationProject\<close> spreads the payload first and lists
  its own keys after it: a key of the payload that the literal lists again is overwritten.
  A counter that the payload leaves out is absent (\<open>None\<close>) until then.
\<close>

definition createMigrationProject ::
  "MemStorage \<Rightarrow> string \<Rightarrow> nat \<Rightarrow> InsertMigrationProject \<Rightarrow> MigrationProject \<times> MemStorage" where
  "createMigrationProject st newId now project =
     (let spread = \<lparr> mp_id = newId,
                      mp_name = ip_name project,
                      mp_description = ip_description project,
                      mp_repositoryConnectionId = ip_repositoryConnectionId project,
                      mp_status = ip_status project,
                      mp_autoMigrationPercentage = map_option Num (ip_autoMigrationPercentage project),
                      mp_totalObjects = map_option (\<lambda>n. Num (of_int n)) (ip_totalObjects project),
                      mp_migratedObjects = map_option (\<lambda>n. Num (of_int n)) (ip_migratedObjects project),
                      mp_createdAt = now,
                      mp_updatedAt = now \<rparr>;
          newProject = spread\<lparr> mp_status := DISCOVERY,
                                mp_autoMigrationPercentage := Some (Num 0),
                                mp_totalObjects := Some (Num 0),
                                mp_migratedObjects := Some (Num 0) \<rparr>
      in (newProject, st\<lparr> migrationProjects := map_set newId newProject (migrationProjects st) \<rparr>))"

definition getMigrationProject :: "MemStorage \<Rightarrow> string \<Rightarrow> MigrationProject option" where
  "getMigrationProject st pid = map_get (migrationProjects st) pid"

definition getRepositoryConnection :: "MemStorage \<Rightarrow> string \<Rightarrow> RepositoryConnection option" where
  "getRepositoryConnection st cid = map_get (repositoryConnections st) cid"

text \<open>
  A \<open>Partial\<close> object spread over an existing one is a function that overwrites the
  fields it carries: \<open>{...existing, ...updates}\<close> is \<open>updates existing\<close>.
\<close>

definition updateMigrationProject ::
  "MemStorage \<Rightarrow> nat \<Rightarrow> string \<Rightarrow> (MigrationProject \<Rightarrow> MigrationProject)
     \<Rightarrow> error + (MigrationProject \<times> MemStorage)" where
  "updateMigrationProject st now pid updates =
     (case map_get (migrationProjects st) pid of
        None \<Rightarrow> Inl (Error ''Migration project not found'')
      | Some existing \<Rightarrow>
          (let updated = (updates existing)\<lparr> mp_updatedAt := now \<rparr>
           in Inr (updated, st\<lparr> migrationProjects := map_set pid updated (migrationProjects st) \<rparr>)))"

definition createPowerCenterObject ::
  "MemStorage \<Rightarrow> string \<Rightarrow> nat \<Rightarrow> InsertPowerCenterObject \<Rightarrow> PowerCenterObject \<times> MemStorage" where
  "createPowerCenterObject st newId now object =
     (let newObject = \<lparr> pco_id = newId,
                         pco_projectId = io_projectId object,
                         pco_objectName = io_objectName object,
                         pco_objectType = io_objectType object,
                         pco_folderName = io_folderName object,
                         pco_complexity = io_complexity object,
                         pco_migrationStatus = io_migrationStatus object,
                         pco_automationCoverage = io_automationCoverage object,
                         pco_dependencies = io_dependencies object,
                         pco_metadata = io_metadata object,
                         pco_lastScanned = now \<rparr>
      in (newObject, st\<lparr> powerCenterObjects := map_set newId newObject (powerCenterObjects st) \<rparr>))"

definition getPowerCenterObjects :: "MemStorage \<Rightarrow> string \<Rightarrow> PowerCenterObject list" where
  "getPowerCenterObjects st pid =
     filter (\<lambda>obj. pco_projectId obj = pid) (map_values (powerCenterObjects st))"

text \<open>
  The loop of \<open>bulkCreatePowerCenterObjects\<close>: the i-th object of the run gets the
  i-th identifier that \<open>generateId()\<close> returns in it.
\<close>

fun bulkCreateFrom ::
  "MemStorage \<Rightarrow> (nat \<Rightarrow> string) \<Rightarrow> nat \<Rightarrow> nat \<Rightarrow> InsertPowerCenterObject list
     \<Rightarrow> PowerCenterObject list \<times> MemStorage" where
  "bulkCreateFrom st ids now i [] = ([], st)"
| "bulkCreateFrom st ids now i (object # objects) =
     (let (result, st1) = createPowerCenterObject st (ids i) now object;
          (results, st2) = bulkCreateFrom st1 ids now (Suc i) objects
      in (result # results, st2))"

definition bulkCreatePowerCenterObjects ::
  "MemStorage \<Rightarrow> (nat \<Rightarrow> string) \<Rightarrow> nat \<Rightarrow> InsertPowerCenterObject list
     \<Rightarrow> PowerCenterObject list \<times> MemStorage" where
  "bulkCreatePowerCenterObjects st ids now objects = bulkCreateFrom st ids now 0 objects"

definition createAssessmentResult ::
  "MemStorage \<Rightarrow> string \<Rightarrow> nat \<Rightarrow> InsertAssessmentResult \<Rightarrow> AssessmentResult \<times> MemStorage" where
  "createAssessmentResult st newId now result =
     (let newResult = \<lparr> ar_id = newId,
                         ar_projectId = ia_projectId result,
                         ar_objectId = ia_objectId result,
                         ar_assessmentType = ia_assessmentType result,
                         ar_result = ia_result result,
                         ar_confidence = ia_confidence result,
                         ar_recommendations = ia_recommendations result,
                         ar_issues_automationCoverage = ia_issues_automationCoverage result,
                         ar_estimatedEffort = ia_estimatedEffort result,
                         ar_createdAt = now \<rparr>
      in (newResult, st\<lparr> assessmentResults := map_set newId newResult (assessmentResults st) \<rparr>))"

text \<open>
  \<open>updateSyncStatus\<close> is an upsert: the defaults, overwritten by the existing record
  when there is one, overwritten by the fields passed.
\<close>

definition updateSyncStatus ::
  "MemStorage \<Rightarrow> string \<Rightarrow> nat \<Rightarrow> string \<Rightarrow> (SyncStatus \<Rightarrow> SyncStatus) \<Rightarrow> SyncStatus \<times> MemStorage" where
  "updateSyncStatus st newId now pid status =
     (let base = (case map_get (syncStatuses st) pid of
                    Some existing \<Rightarrow> existing
                  | None \<Rightarrow> \<lparr> sy_id = newId, sy_projectId = pid, sy_lastSyncTime = now,
                              sy_syncType = INCREMENTAL, sy_status = COMPLETED,
                              sy_itemsProcessed = 0, sy_errors = None \<rparr>);
          updated = status base
      in (updated, st\<lparr> syncStatuses := map_set pid updated (syncStatuses st) \<rparr>))"

definition getSyncStatus :: "MemStorage \<Rightarrow> string \<Rightarrow> SyncStatus option" where
  "getSyncStatus st pid = map_get (syncStatuses st) pid"

section \<open>Repository adapters (PowerCenterService)\<close>

subsection \<open>Raw records and discovered interfaces\<close>

record PowerCenterWorkflow =
  wf_name :: "string option"
  wf_folder :: "string option"
  wf_isValid :: "bool option"
  wf_sessions :: "string list"
  wf_dependencies :: "string list"
  wf_complexity :: complexity_tier
  wf_metadata :: metadata

record PowerCenterMapping =
  mg_name :: "string option"
  mg_folder :: "string option"
  mg_transformations :: "string list"
  mg_sources :: "string list"
  mg_targets :: "string list"
  mg_complexity :: complexity_tier
  mg_metadata :: metadata

record PowerCenterSession =
  ss_name :: "string option"
  ss_folder :: "string option"
  ss_mappingName :: "string option"
  ss_sessionType :: "string option"
  ss_metadata :: metadata

record PowerCenterTransformation =
  tr_name :: "string option"
  tr_folder :: "string option"
  tr_type :: "string option"
  tr_mappingName :: "string option"
  tr_expressions :: "string list"
  tr_metadata :: metadata

record PowerCenterSource =
  src_name :: "string option"
  src_folder :: "string option"
  src_type :: "string option"
  src_connectionName :: "string option"
  src_metadata :: metadata

record PowerCenterTarget =
  tgt_name :: "string option"
  tgt_folder :: "string option"
  tgt_type :: "string option"
  tgt_connectionName :: "string option"
  tgt_metadata :: metadata

record PowerCenterDiscoveryResult =
  workflows :: "PowerCenterWorkflow list"
  mappings :: "PowerCenterMapping list"
  sessions :: "PowerCenterSession list"
  transformations :: "PowerCenterTransformation list"
  sources :: "PowerCenterSource list"
  targets :: "PowerCenterTarget list"

subsection \<open>Structural complexity\<close>

text \<open>\<open>x?.length || 0\<close>: the length of the array, 0 when the property is absent.\<close>

definition length_or_0 :: "'a list option \<Rightarrow> nat" where
  "length_or_0 xs = (case xs of None \<Rightarrow> 0 | Some ys \<Rightarrow> length ys)"

text \<open>\<open>x || []\<close>: an array (also the empty one) is truthy.\<close>

definition or_empty :: "'a list option \<Rightarrow> 'a list" where
  "or_empty xs = (case xs of None \<Rightarrow> [] | Some ys \<Rightarrow> ys)"

definition componentCount :: "raw_record \<Rightarrow> nat" where
  "componentCount object =
     length_or_0 (r_transformations object) + length_or_0 (r_sessions object)
       + length_or_0 (r_dependencies object)"

definition calculateComplexity :: "raw_record \<Rightarrow> complexity_tier" where
  "calculateComplexity object =
     (if componentCount object = 0 then SIMPLE
      else if componentCount object \<le> 5 then MEDIUM
      else COMPLEX)"

subsection \<open>REST adapter\<close>

text \<open>
  One HTTP exchange: \<open>fetch\<close> rejects with a message, or resolves to a response with
  its \<open>ok\<close> flag and the outcome of \<open>response.json()\<close> (which rejects on a body
  that is not JSON).
\<close>

datatype 'a http_result = FetchRejected string | HttpResponse bool "string + 'a"

text \<open>
  What the repository server answers in one discovery run: to the login call, and to each
  of the six reads (given the token sent, \<open>undefined\<close> when the login body has none).
\<close>

record rest_server =
  rest_login :: "string option http_result"
  rest_workflows :: "string option \<Rightarrow> raw_record list option http_result"
  rest_mappings :: "string option \<Rightarrow> raw_record list option http_result"
  rest_sessions :: "string option \<Rightarrow> raw_record list option http_result"
  rest_transformations :: "string option \<Rightarrow> raw_record list option http_result"
  rest_sources :: "string option \<Rightarrow> raw_record list option http_result"
  rest_targets :: "string option \<Rightarrow> raw_record list option http_result"

definition authenticateRest :: "rest_server \<Rightarrow> error + string option" where
  "authenticateRest srv =
     (case rest_login srv of
        FetchRejected msg \<Rightarrow> Inl (Error msg)
      | HttpResponse ok body \<Rightarrow>
          if \<not> ok then Inl (Error ''Authentication failed'')
          else (case body of Inl msg \<Rightarrow> Inl (Error msg) | Inr token \<Rightarrow> Inr token))"

text \<open>
  The six readers share one shape: a response that is not \<open>ok\<close> gives the empty list, a
  rejected \<open>fetch\<close> or \<open>json()\<close> is thrown on, an absent list property gives the
  empty list, and each raw record is mapped to the interface of its kind.
\<close>

definition readViaRest ::
  "(raw_record \<Rightarrow> 'a) \<Rightarrow> raw_record list option http_result \<Rightarrow> error + 'a list" where
  "readViaRest convert response =
     (case response of
        FetchRejected msg \<Rightarrow> Inl (Error msg)
      | HttpResponse ok body \<Rightarrow>
          if \<not> ok then Inr []
          else (case body of
                  Inl msg \<Rightarrow> Inl (Error msg)
                | Inr None \<Rightarrow> Inr []
                | Inr (Some records) \<Rightarrow> Inr (map convert records)))"

definition restWorkflow :: "raw_record \<Rightarrow> PowerCenterWorkflow" where
  "restWorkflow w =
     \<lparr> wf_name = r_name w, wf_folder = r_folder w, wf_isValid = r_isValid w,
       wf_sessions = or_empty (r_sessions w),
       wf_dependencies = or_empty (r_dependencies w),
       wf_complexity = calculateComplexity w,
       wf_metadata = RestRecord w \<rparr>"

definition restMapping :: "raw_record \<Rightarrow> PowerCenterMapping" where
  "restMapping mapping =
     \<lparr> mg_name = r_name mapping, mg_folder = r_folder mapping,
       mg_transformations = or_empty (r_transformations mapping),
       mg_sources = or_empty (r_sources mapping),
       mg_targets = or_empty (r_targets mapping),
       mg_complexity = calculateComplexity mapping,
       mg_metadata = RestRecord mapping \<rparr>"

definition restSession :: "raw_record \<Rightarrow> PowerCenterSession" where
  "restSession session =
     \<lparr> ss_name = r_name session, ss_folder = r_folder session,
       ss_mappingName = r_mappingName session, ss_sessionType = r_sessionType session,
       ss_metadata = RestRecord session \<rparr>"

definition restTransformation :: "raw_record \<Rightarrow> PowerCenterTransformation" where
  "restTransformation t =
     \<lparr> tr_name = r_name t, tr_folder = r_folder t, tr_type = r_type t,
       tr_mappingName = r_mappingName t,
       tr_expressions = or_empty (r_expressions t),
       tr_metadata = RestRecord t \<rparr>"

definition restSource :: "raw_record \<Rightarrow> PowerCenterSource" where
  "restSource source =
     \<lparr> src_name = r_name source, src_folder = r_folder source, src_type = r_type source,
       src_connectionName = r_connectionName source, src_metadata = RestRecord source \<rparr>"

definition restTarget :: "raw_record \<Rightarrow> PowerCenterTarget" where
  "restTarget target =
     \<lparr> tgt_name = r_name target, tgt_folder = r_folder target, tgt_type = r_type target,
       tgt_connectionName = r_connectionName target, tgt_metadata = RestRecord target \<rparr>"

definition getWorkflowsViaRest :: "rest_server \<Rightarrow> string option \<Rightarrow> error + PowerCenterWorkflow list" where
  "getWorkflowsViaRest srv token = readViaRest restWorkflow (rest_workflows srv token)"

definition getMappingsViaRest :: "rest_server \<Rightarrow> string option \<Rightarrow> error + PowerCenterMapping list" where
  "getMappingsViaRest srv token = readViaRest restMapping (rest_mappings srv token)"

definition getSessionsViaRest :: "rest_server \<Rightarrow> string option \<Rightarrow> error + PowerCenterSession list" where
  "getSessionsViaRest srv token = readViaRest restSession (rest_sessions srv token)"

definition getTransformationsViaRest ::
  "rest_server \<Rightarrow> string option \<Rightarrow> error + PowerCenterTransformation list" where
  "getTransformationsViaRest srv token =
     readViaRest restTransformation (rest_transformations srv token)"

definition getSourcesViaRest :: "rest_server \<Rightarrow> string option \<Rightarrow> error + PowerCenterSource list" where
  "getSourcesViaRest srv token = readViaRest restSource (rest_sources srv token)"

definition getTargetsViaRest :: "rest_server \<Rightarrow> string option \<Rightarrow> error + PowerCenterTarget list" where
  "getTargetsViaRest srv token = readViaRest restTarget (rest_targets srv token)"

definition message :: "error \<Rightarrow> string" where
  "message e = (case e of Error msg \<Rightarrow> msg)"

text \<open>
  \<open>Promise.all\<close> rejects as soon as one of the six reads rejects. When several reject,
  the message is that of the one settling first; the model takes the first in array
  order. The \<open>catch\<close> wraps whatever was thrown, the login failure included.
\<close>

definition restFanOut :: "rest_server \<Rightarrow> string option \<Rightarrow> error + PowerCenterDiscoveryResult" where
  "restFanOut srv token =
     (case getWorkflowsViaRest srv token of Inl e \<Rightarrow> Inl e | Inr wfs \<Rightarrow>
     (case getMappingsViaRest srv token of Inl e \<Rightarrow> Inl e | Inr mgs \<Rightarrow>
     (case getSessionsViaRest srv token of Inl e \<Rightarrow> Inl e | Inr sss \<Rightarrow>
     (case getTransformationsViaRest srv token of Inl e \<Rightarrow> Inl e | Inr trs \<Rightarrow>
     (case getSourcesViaRest srv token of Inl e \<Rightarrow> Inl e | Inr srcs \<Rightarrow>
     (case getTargetsViaRest srv token of Inl e \<Rightarrow> Inl e | Inr tgts \<Rightarrow>
        Inr \<lparr> workflows = wfs, mappings = mgs, sessions = sss, transformations = trs,
              sources = srcs, targets = tgts \<rparr>))))))"

definition discoverRepositoryViaRest :: "rest_server \<Rightarrow> error + PowerCenterDiscoveryResult" where
  "discoverRepositoryViaRest srv =
     (case (case authenticateRest srv of Inl e \<Rightarrow> Inl e | Inr token \<Rightarrow> restFanOut srv token) of
        Inl e \<Rightarrow> Inl (Error (''REST API discovery failed: '' @ message e))
      | Inr result \<Rightarrow> Inr result)"

subsection \<open>pmrep adapter\<close>

text \<open>
  Strings are lists of 8-bit characters. \<open>split\<close> on a one-character separator always
  returns at least one part; \<open>trim\<close> strips the ASCII white space (tab, line feed,
  vertical tab, form feed, carriage return, space) from both ends; \<open>includes\<close>
  (here \<open>str_includes\<close>) looks for a contiguous occurrence.
\<close>

fun split :: "char \<Rightarrow> string \<Rightarrow> string list" where
  "split sep [] = [[]]"
| "split sep (c # cs) =
     (if c = sep then [] # split sep cs
      else (case split sep cs of [] \<Rightarrow> [[c]] | part # parts \<Rightarrow> (c # part) # parts))"

definition is_white_space :: "char \<Rightarrow> bool" where
  "is_white_space c =
     (c = CHR 0x09 \<or> c = CHR 0x0A \<or> c = CHR 0x0B \<or> c = CHR 0x0C \<or> c = CHR 0x0D \<or> c = CHR '' '')"

definition trim :: "string \<Rightarrow> string" where
  "trim s = rev (dropWhile is_white_space (rev (dropWhile is_white_space s)))"

fun startsWith :: "string \<Rightarrow> string \<Rightarrow> bool" where
  "startsWith s [] = True"
| "startsWith [] (p # ps) = False"
| "startsWith (c # cs) (p # ps) = (c = p \<and> startsWith cs ps)"

fun str_includes :: "string \<Rightarrow> string \<Rightarrow> bool" where
  "str_includes [] sub = (sub = [])"
| "str_includes (c # cs) sub = (startsWith (c # cs) sub \<or> str_includes cs sub)"

text \<open>\<open>parts[i]\<close> is \<open>undefined\<close> beyond the end of the array.\<close>

definition part_at :: "string list \<Rightarrow> nat \<Rightarrow> string option" where
  "part_at parts i = (if i < length parts then Some (parts ! i) else None)"

text \<open>\<open>parts[i]?.trim() || d\<close>: the empty string is falsy.\<close>

definition trimmed_or :: "string list \<Rightarrow> nat \<Rightarrow> string \<Rightarrow> string" where
  "trimmed_or parts i d =
     (case part_at parts i of
        None \<Rightarrow> d
      | Some p \<Rightarrow> if trim p = [] then d else trim p)"

definition nonblank_lines :: "string \<Rightarrow> string list" where
  "nonblank_lines output = filter (\<lambda>line. trim line \<noteq> []) (split CHR 0x0A output)"

text \<open>
  Each parser walks the non-blank lines, keeps those that contain the keyword of its kind
  and have enough tab-separated parts, and drops the others. The workflow and mapping
  parsers give every record the tier MEDIUM and empty component lists.
\<close>

definition parsePmrepWorkflowOutput :: "string \<Rightarrow> PowerCenterWorkflow list" where
  "parsePmrepWorkflowOutput output =
     concat (map (\<lambda>line.
       if str_includes line ''workflow'' \<and> 3 \<le> length (split CHR 0x09 line)
       then [\<lparr> wf_name = Some (trim (split CHR 0x09 line ! 0)),
               wf_folder = Some (trim (split CHR 0x09 line ! 1)),
               wf_isValid = Some (trim (split CHR 0x09 line ! 2) = ''valid''),
               wf_sessions = [],
               wf_dependencies = [],
               wf_complexity = MEDIUM,
               wf_metadata = RawOutput line \<rparr>]
       else []) (nonblank_lines output))"

definition parsePmrepMappingOutput :: "string \<Rightarrow> PowerCenterMapping list" where
  "parsePmrepMappingOutput output =
     concat (map (\<lambda>line.
       if str_includes line ''mapping'' \<and> 2 \<le> length (split CHR 0x09 line)
       then [\<lparr> mg_name = Some (trim (split CHR 0x09 line ! 0)),
               mg_folder = Some (trim (split CHR 0x09 line ! 1)),
               mg_transformations = [],
               mg_sources = [],
               mg_targets = [],
               mg_complexity = MEDIUM,
               mg_metadata = RawOutput line \<rparr>]
       else []) (nonblank_lines output))"

definition parsePmrepSessionOutput :: "string \<Rightarrow> PowerCenterSession list" where
  "parsePmrepSessionOutput output =
     concat (map (\<lambda>line.
       if str_includes line ''session'' \<and> 2 \<le> length (split CHR 0x09 line)
       then [\<lparr> ss_name = Some (trim (split CHR 0x09 line ! 0)),
               ss_folder = Some (trim (split CHR 0x09 line ! 1)),
               ss_mappingName = Some (trimmed_or (split CHR 0x09 line) 2 []),
               ss_sessionType = Some ''session'',
               ss_metadata = RawOutput line \<rparr>]
       else []) (nonblank_lines output))"

definition parsePmrepTransformationOutput :: "string \<Rightarrow> PowerCenterTransformation list" where
  "parsePmrepTransformationOutput output =
     concat (map (\<lambda>line.
       if str_includes line ''transformation'' \<and> 3 \<le> length (split CHR 0x09 line)
       then [\<lparr> tr_name = Some (trim (split CHR 0x09 line ! 0)),
               tr_folder = Some (trim (split CHR 0x09 line ! 1)),
               tr_type = Some (trimmed_or (split CHR 0x09 line) 2 ''unknown''),
               tr_mappingName = Some (trimmed_or (split CHR 0x09 line) 3 []),
               tr_expressions = [],
               tr_metadata = RawOutput line \<rparr>]
       else []) (nonblank_lines output))"

definition parsePmrepSourceOutput :: "string \<Rightarrow> PowerCenterSource list" where
  "parsePmrepSourceOutput output =
     concat (map (\<lambda>line.
       if str_includes line ''source'' \<and> 3 \<le> length (split CHR 0x09 line)
       then [\<lparr> src_name = Some (trim (split CHR 0x09 line ! 0)),
               src_folder = Some (trim (split CHR 0x09 line ! 1)),
               src_type = Some (trimmed_or (split CHR 0x09 line) 2 ''unknown''),
               src_connectionName = Some (trimmed_or (split CHR 0x09 line) 3 []),
               src_metadata = RawOutput line \<rparr>]
       else []) (nonblank_lines output))"

definition parsePmrepTargetOutput :: "string \<Rightarrow> PowerCenterTarget list" where
  "parsePmrepTargetOutput output =
     concat (map (\<lambda>line.
       if str_includes line ''target'' \<and> 3 \<le> length (split CHR 0x09 line)
       then [\<lparr> tgt_name = Some (trim (split CHR 0x09 line ! 0)),
               tgt_folder = Some (trim (split CHR 0x09 line ! 1)),
               tgt_type = Some (trimmed_or (split CHR 0x09 line) 2 ''unknown''),
               tgt_connectionName = Some (trimmed_or (split CHR 0x09 line) 3 []),
               tgt_metadata = RawOutput line \<rparr>]
       else []) (nonblank_lines output))"

text \<open>
  One run of the command-line utility: it fails with a message, or ends with its standard
  output. A list command that fails is caught and gives the empty list; a connect
  command that fails is thrown on, wrapped.
\<close>

datatype exec_result = ExecFailed string | ExecOk string

record pmrep_host =
  pmrep_connect :: exec_result
  pmrep_list :: "object_type \<Rightarrow> exec_result"

definition listViaPmrep :: "(string \<Rightarrow> 'a list) \<Rightarrow> exec_result \<Rightarrow> 'a list" where
  "listViaPmrep parse r = (case r of ExecFailed msg \<Rightarrow> [] | ExecOk stdout \<Rightarrow> parse stdout)"

definition getWorkflowsViaPmrep :: "pmrep_host \<Rightarrow> PowerCenterWorkflow list" where
  "getWorkflowsViaPmrep host = listViaPmrep parsePmrepWorkflowOutput (pmrep_list host WORKFLOW)"

definition getMappingsViaPmrep :: "pmrep_host \<Rightarrow> PowerCenterMapping list" where
  "getMappingsViaPmrep host = listViaPmrep parsePmrepMappingOutput (pmrep_list host MAPPING)"

definition getSessionsViaPmrep :: "pmrep_host \<Rightarrow> PowerCenterSession list" where
  "getSessionsViaPmrep host = listViaPmrep parsePmrepSessionOutput (pmrep_list host SESSION)"

definition getTransformationsViaPmrep :: "pmrep_host \<Rightarrow> PowerCenterTransformation list" where
  "getTransformationsViaPmrep host =
     listViaPmrep parsePmrepTransformationOutput (pmrep_list host TRANSFORMATION)"

definition getSourcesViaPmrep :: "pmrep_host \<Rightarrow> PowerCenterSource list" where
  "getSourcesViaPmrep host = listViaPmrep parsePmrepSourceOutput (pmrep_list host SOURCE)"

definition getTargetsViaPmrep :: "pmrep_host \<Rightarrow> PowerCenterTarget list" where
  "getTargetsViaPmrep host = listViaPmrep parsePmrepTargetOutput (pmrep_list host TARGET)"

definition discoverRepositoryViaPmrep :: "pmrep_host \<Rightarrow> error + PowerCenterDiscoveryResult" where
  "discoverRepositoryViaPmrep host =
     (case pmrep_connect host of
        ExecFailed msg \<Rightarrow> Inl (Error (''pmrep discovery failed: '' @ msg))
      | ExecOk stdout \<Rightarrow>
          Inr \<lparr> workflows = getWorkflowsViaPmrep host,
                mappings = getMappingsViaPmrep host,
                sessions = getSessionsViaPmrep host,
                transformations = getTransformationsViaPmrep host,
                sources = getSourcesViaPmrep host,
                targets = getTargetsViaPmrep host \<rparr>)"

subsection \<open>Assessment\<close>

text \<open>
  \<open>assessMigrationComplexity\<close> takes \<open>any[]\<close> and reads three properties of each
  element: \<open>type\<close>, \<open>name\<close> and \<open>expressions\<close>. An element is modelled by
  these three, each possibly absent. The score moves in steps of 1 and 0.5; the
  quotient and the comparisons are computed on exact rationals where the source uses
  double-precision numbers.
\<close>

record js_object =
  o_type :: "string option"
  o_name :: "string option"
  o_expressions :: "string list option"

record assessment =
  as_complexity :: complexity_tier
  as_automationCoverage :: int
  as_issues :: "string list"

text \<open>A template literal prints an absent value as \<open>undefined\<close>.\<close>

definition template :: "string option \<Rightarrow> string" where
  "template v = (case v of None \<Rightarrow> ''undefined'' | Some s \<Rightarrow> s)"

definition hasDecode :: "js_object \<Rightarrow> bool" where
  "hasDecode object =
     (case o_expressions object of
        None \<Rightarrow> False
      | Some exprs \<Rightarrow> list_ex (\<lambda>expr. str_includes expr ''DECODE'') exprs)"

text \<open>One turn of the loop, on the pair of the issues so far and the score so far.\<close>

definition assessObject :: "string list \<times> rat \<Rightarrow> js_object \<Rightarrow> string list \<times> rat" where
  "assessObject acc object =
     (let unsupported =
            (if o_type object = Some ''XML_PARSER''
             then (fst acc @ [''Unsupported transformation: '' @ template (o_name object)
                                @ '' (XML Parser)''], snd acc)
             else if o_type object = Some ''MQSERIES''
             then (fst acc @ [''Unsupported transformation: '' @ template (o_name object)
                                @ '' (MQSeries)''], snd acc)
             else (fst acc, snd acc + 1))
      in if hasDecode object
         then (fst unsupported @ [''Complex expression requiring manual conversion: ''
                                    @ template (o_name object)], snd unsupported - 1 / 2)
         else unsupported)"

definition automationScore :: "js_object list \<Rightarrow> rat" where
  "automationScore objects = snd (foldl assessObject ([], 0) objects)"

text \<open>\<open>Math.round\<close> rounds to the nearest integer, a half upwards.\<close>

definition Math_round :: "rat \<Rightarrow> int" where
  "Math_round x = \<lfloor>x + 1 / 2\<rfloor>"

definition assessMigrationComplexity :: "js_object list \<Rightarrow> assessment" where
  "assessMigrationComplexity objects =
     (let issues = fst (foldl assessObject ([], 0) objects);
          totalObjects = length objects;
          automationCoverage =
            (if totalObjects > 0
             then max 0 (automationScore objects / of_nat totalObjects * 100)
             else 0);
          complexity =
            (if automationCoverage > 80 then SIMPLE
             else if automationCoverage > 50 then MEDIUM
             else COMPLEX)
      in \<lparr> as_complexity = complexity,
           as_automationCoverage = Math_round automationCoverage,
           as_issues = issues \<rparr>)"

text \<open>A discovered transformation, read through the three properties.\<close>

definition transformationAsObject :: "PowerCenterTransformation \<Rightarrow> js_object" where
  "transformationAsObject t =
     \<lparr> o_type = tr_type t, o_name = tr_name t, o_expressions = Some (tr_expressions t) \<rparr>"

text \<open>
  A persisted object has the properties \<open>objectName\<close> and \<open>objectType\<close>; the subtype
  and the expressions of a transformation lie inside its \<open>metadata\<close>. It has no
  property \<open>type\<close>, \<open>name\<close> or \<open>expressions\<close> of its own, so reading them gives
  \<open>undefined\<close>. This holds of every object in the storage: the discovery route builds
  its objects with the keys of the schema only, and the validated create route keeps no
  other key.
\<close>

definition persistedAsObject :: "PowerCenterObject \<Rightarrow> js_object" where
  "persistedAsObject obj = \<lparr> o_type = None, o_name = None, o_expressions = None \<rparr>"

subsection \<open>Events of a pmrep discovery\<close>

text \<open>
  \<open>discoverRepositoryViaPmrep\<close> awaits the connect command and then awaits
  \<open>Promise.all\<close> of an array of six calls, and returns when that promise resolves.
  The events of one discovery are the commands issued, the commands completed, and the
  end of the function (it returns, or it throws after a failed connect).

  The array is evaluated first: the six async functions are called one after the other,
  and each runs up to its first \<open>await\<close>, which is on the \<open>execAsync\<close> of its
  command, so every call issues its command and leaves it running (rule \<open>call\<close>). No
  completion is delivered while the array is being evaluated. Afterwards any running
  command may complete next (rule \<open>settle\<close>; a list command that fails completes too,
  its reader catches the failure). \<open>Promise.all\<close> resolves when no command is
  running any more (rule \<open>resolve\<close>).
\<close>

datatype pmrep_command = Connect | ListObjects object_type

datatype pmrep_event = Issued pmrep_command | Completed pmrep_command | Returned | Threw

definition listCommands :: "pmrep_command list" where
  "listCommands = [ListObjects WORKFLOW, ListObjects MAPPING, ListObjects SESSION,
                   ListObjects TRANSFORMATION, ListObjects SOURCE, ListObjects TARGET]"

inductive promiseAll :: "pmrep_command list \<Rightarrow> pmrep_command list \<Rightarrow> pmrep_event list \<Rightarrow> bool" where
  call: "promiseAll calls (running @ [c]) events
           \<Longrightarrow> promiseAll (c # calls) running (Issued c # events)"
| settle: "c \<in> set running \<Longrightarrow> promiseAll [] (remove1 c running) events
           \<Longrightarrow> promiseAll [] running (Completed c # events)"
| resolve: "promiseAll [] [] []"

code_pred promiseAll .

inductive discoverRepositoryViaPmrepEvents :: "pmrep_host \<Rightarrow> pmrep_event list \<Rightarrow> bool" where
  connect_failed: "pmrep_connect host = ExecFailed msg
     \<Longrightarrow> discoverRepositoryViaPmrepEvents host [Issued Connect, Completed Connect, Threw]"
| connect_ok: "pmrep_connect host = ExecOk stdout \<Longrightarrow> promiseAll listCommands [] events
     \<Longrightarrow> discoverRepositoryViaPmrepEvents host
           ([Issued Connect, Completed Connect] @ events @ [Returned])"

text \<open>
  A sequence of events is sequential when no command is issued while another one is
  still running; the number counts the commands in flight.
\<close>

fun sequentialFrom :: "nat \<Rightarrow> pmrep_event list \<Rightarrow> bool" where
  "sequentialFrom n [] = True"
| "sequentialFrom n (Issued c # es) = (n = 0 \<and> sequentialFrom (Suc n) es)"
| "sequentialFrom n (Completed c # es) = sequentialFrom (n - 1) es"
| "sequentialFrom n (Returned # es) = sequentialFrom n es"
| "sequentialFrom n (Threw # es) = sequentialFrom n es"

definition sequential :: "pmrep_event list \<Rightarrow> bool" where
  "sequential es = sequentialFrom 0 es"

section \<open>Routes\<close>

datatype 'a reply = Reply nat 'a | ErrorReply nat string | Unanswered

definition replied :: "'a reply \<Rightarrow> 'a option" where
  "replied r = (case r of Reply code body \<Rightarrow> Some body | ErrorReply code msg \<Rightarrow> None | Unanswered \<Rightarrow> None)"

subsection \<open>Discovery\<close>

definition workflowObject :: "string \<Rightarrow> PowerCenterWorkflow \<Rightarrow> InsertPowerCenterObject" where
  "workflowObject projectId w =
     \<lparr> io_projectId = projectId, io_objectName = wf_name w, io_objectType = WORKFLOW,
       io_folderName = wf_folder w, io_complexity = wf_complexity w,
       io_migrationStatus = FULLY_AUTO, io_automationCoverage = 85,
       io_dependencies = wf_dependencies w, io_metadata = wf_metadata w \<rparr>"

definition mappingObject :: "string \<Rightarrow> PowerCenterMapping \<Rightarrow> InsertPowerCenterObject" where
  "mappingObject projectId mapping =
     \<lparr> io_projectId = projectId, io_objectName = mg_name mapping, io_objectType = MAPPING,
       io_folderName = mg_folder mapping, io_complexity = mg_complexity mapping,
       io_migrationStatus = FULLY_AUTO, io_automationCoverage = 90,
       io_dependencies = [], io_metadata = mg_metadata mapping \<rparr>"

definition sessionObject :: "string \<Rightarrow> PowerCenterSession \<Rightarrow> InsertPowerCenterObject" where
  "sessionObject projectId session =
     \<lparr> io_projectId = projectId, io_objectName = ss_name session, io_objectType = SESSION,
       io_folderName = ss_folder session, io_complexity = SIMPLE,
       io_migrationStatus = FULLY_AUTO, io_automationCoverage = 95,
       io_dependencies = [], io_metadata = ss_metadata session \<rparr>"

definition transformationObject :: "string \<Rightarrow> PowerCenterTransformation \<Rightarrow> InsertPowerCenterObject" where
  "transformationObject projectId t =
     \<lparr> io_projectId = projectId, io_objectName = tr_name t, io_objectType = TRANSFORMATION,
       io_folderName = tr_folder t, io_complexity = MEDIUM,
       io_migrationStatus = (if tr_type t = Some ''XML_PARSER'' then MANUAL_REDESIGN else PARTIAL),
       io_automationCoverage = (if tr_type t = Some ''XML_PARSER'' then 20 else 75),
       io_dependencies = [], io_metadata = tr_metadata t \<rparr>"

definition sourceObject :: "string \<Rightarrow> PowerCenterSource \<Rightarrow> InsertPowerCenterObject" where
  "sourceObject projectId source =
     \<lparr> io_projectId = projectId, io_objectName = src_name source, io_objectType = SOURCE,
       io_folderName = src_folder source, io_complexity = SIMPLE,
       io_migrationStatus = FULLY_AUTO, io_automationCoverage = 95,
       io_dependencies = [], io_metadata = src_metadata source \<rparr>"

definition targetObject :: "string \<Rightarrow> PowerCenterTarget \<Rightarrow> InsertPowerCenterObject" where
  "targetObject projectId target =
     \<lparr> io_projectId = projectId, io_objectName = tgt_name target, io_objectType = TARGET,
       io_folderName = tgt_folder target, io_complexity = SIMPLE,
       io_migrationStatus = FULLY_AUTO, io_automationCoverage = 95,
       io_dependencies = [], io_metadata = tgt_metadata target \<rparr>"

definition allObjects :: "string \<Rightarrow> PowerCenterDiscoveryResult \<Rightarrow> InsertPowerCenterObject list" where
  "allObjects projectId discoveryResult =
     map (workflowObject projectId) (workflows discoveryResult)
       @ map (mappingObject projectId) (mappings discoveryResult)
       @ map (sessionObject projectId) (sessions discoveryResult)
       @ map (transformationObject projectId) (transformations discoveryResult)
       @ map (sourceObject projectId) (sources discoveryResult)
       @ map (targetObject projectId) (targets discoveryResult)"

text \<open>
  The statistics: a quotient of two array lengths, times 100, rounded. In JavaScript
  0 / 0 is \<open>NaN\<close>, a positive number over 0 is \<open>Infinity\<close>, and both pass through
  the product and \<open>Math.round\<close> unchanged.
\<close>

definition js_divide :: "nat \<Rightarrow> nat \<Rightarrow> js_number" where
  "js_divide a b =
     (if b = 0 then (if a = 0 then NaN else Infinity) else Num (of_nat a / of_nat b))"

definition js_times :: "js_number \<Rightarrow> rat \<Rightarrow> js_number" where
  "js_times x k = (case x of Num q \<Rightarrow> Num (q * k) | NaN \<Rightarrow> NaN | Infinity \<Rightarrow> Infinity)"

definition js_Math_round :: "js_number \<Rightarrow> js_number" where
  "js_Math_round x =
     (case x of Num q \<Rightarrow> Num (of_int (Math_round q)) | NaN \<Rightarrow> NaN | Infinity \<Rightarrow> Infinity)"

definition autoMigrationPercentage :: "InsertPowerCenterObject list \<Rightarrow> js_number" where
  "autoMigrationPercentage objects =
     js_Math_round
       (js_times
          (js_divide (length (filter (\<lambda>obj. io_migrationStatus obj = FULLY_AUTO) objects))
                     (length objects))
          100)"

record discovery_reply =
  dr_totalObjects :: nat
  dr_autoMigrationPercentage :: js_number
  dr_workflows :: nat
  dr_mappings :: nat
  dr_sessions :: nat
  dr_transformations :: nat
  dr_sources :: nat
  dr_targets :: nat

text \<open>
  What lies outside the server during one discovery request: the repository behind each
  protocol, the identifiers \<open>generateId()\<close> returns, and the clock.
\<close>

record outside =
  out_rest :: rest_server
  out_pmrep :: pmrep_host
  out_ids :: "nat \<Rightarrow> string"
  out_now :: nat

text \<open>The \<open>catch\<close> block of the discovery route.\<close>

definition discoveryFailed ::
  "MemStorage \<Rightarrow> outside \<Rightarrow> string \<Rightarrow> error \<Rightarrow> discovery_reply reply \<times> MemStorage" where
  "discoveryFailed st out pid e =
     (case updateMigrationProject st (out_now out) pid (\<lambda>p. p\<lparr> mp_status := DISCOVERY \<rparr>) of
        Inl e' \<Rightarrow> (Unanswered, st)
      | Inr (p, st') \<Rightarrow> (ErrorReply 500 (message e), st'))"

definition discover :: "MemStorage \<Rightarrow> outside \<Rightarrow> string \<Rightarrow> discovery_reply reply \<times> MemStorage" where
  "discover st out pid =
     (case getMigrationProject st pid of
        None \<Rightarrow> (ErrorReply 404 ''Migration project not found'', st)
      | Some project \<Rightarrow>
     (case getRepositoryConnection st (mp_repositoryConnectionId project) of
        None \<Rightarrow> (ErrorReply 404 ''Repository connection not found'', st)
      | Some connection \<Rightarrow>
     (case updateMigrationProject st (out_now out) (mp_id project) (\<lambda>p. p\<lparr> mp_status := DISCOVERY \<rparr>) of
        Inl e \<Rightarrow> discoveryFailed st out pid e
      | Inr (p1, st1) \<Rightarrow>
     (case (if rc_connectionType connection = REST_API
            then discoverRepositoryViaRest (out_rest out)
            else discoverRepositoryViaPmrep (out_pmrep out)) of
        Inl e \<Rightarrow> discoveryFailed st1 out pid e
      | Inr discoveryResult \<Rightarrow>
     (let objects = allObjects (mp_id project) discoveryResult;
          st2 = snd (bulkCreatePowerCenterObjects st1 (out_ids out) (out_now out) objects);
          totalObjects = length objects;
          percentage = autoMigrationPercentage objects
      in
     (case updateMigrationProject st2 (out_now out) (mp_id project)
             (\<lambda>p. p\<lparr> mp_status := ASSESSMENT,
                      mp_totalObjects := Some (Num (of_nat totalObjects)),
                      mp_autoMigrationPercentage := Some percentage \<rparr>) of
        Inl e \<Rightarrow> discoveryFailed st2 out pid e
      | Inr (p3, st3) \<Rightarrow>
     (let st4 = snd (updateSyncStatus st3 (out_ids out totalObjects) (out_now out) (mp_id project)
                       (\<lambda>s. s\<lparr> sy_syncType := FULL, sy_status := COMPLETED,
                                sy_itemsProcessed := totalObjects \<rparr>))
      in (Reply 200
            \<lparr> dr_totalObjects = totalObjects,
              dr_autoMigrationPercentage = percentage,
              dr_workflows = length (workflows discoveryResult),
              dr_mappings = length (mappings discoveryResult),
              dr_sessions = length (sessions discoveryResult),
              dr_transformations = length (transformations discoveryResult),
              dr_sources = length (sources discoveryResult),
              dr_targets = length (targets discoveryResult) \<rparr>, st4))))))))"

subsection \<open>Assessment\<close>

definition assess :: "MemStorage \<Rightarrow> string \<Rightarrow> nat \<Rightarrow> string \<Rightarrow> AssessmentResult reply \<times> MemStorage" where
  "assess st newId now pid =
     (let objects = getPowerCenterObjects st pid;
          assessment = assessMigrationComplexity (map persistedAsObject objects);
          created = createAssessmentResult st newId now
            \<lparr> ia_projectId = pid,
              ia_objectId = ''project-level'',
              ia_assessmentType = COMPLEXITY,
              ia_result = as_complexity assessment,
              ia_confidence = 85,
              ia_recommendations = as_issues assessment,
              ia_issues_automationCoverage = as_automationCoverage assessment,
              ia_estimatedEffort = \<lceil>(of_nat (length objects) :: rat) * 2\<rceil> \<rparr>
      in (Reply 200 (fst created), snd created))"

subsection \<open>Real-time sync\<close>

text \<open>
  \<open>startRealTimeSync\<close> registers a polling timer (every 30 s) and a timer that clears it
  (after 24 h). The server keeps the timers it has registered besides the storage.
\<close>

record sync_task =
  task_projectId :: string
  task_interval_ms :: nat
  task_lifetime_ms :: nat

definition startRealTimeSync :: "sync_task list \<Rightarrow> string \<Rightarrow> sync_task list" where
  "startRealTimeSync tasks projectId =
     tasks @ [\<lparr> task_projectId = projectId, task_interval_ms = 30000,
                task_lifetime_ms = 24 * 60 * 60 * 1000 \<rparr>]"

definition startSync ::
  "MemStorage \<times> sync_task list \<Rightarrow> string \<Rightarrow> nat \<Rightarrow> string
     \<Rightarrow> string reply \<times> (MemStorage \<times> sync_task list)" where
  "startSync server newId now pid =
     (case getMigrationProject (fst server) pid of
        None \<Rightarrow> (ErrorReply 404 ''Migration project not found'', server)
      | Some project \<Rightarrow>
     (case getRepositoryConnection (fst server) (mp_repositoryConnectionId project) of
        None \<Rightarrow> (ErrorReply 404 ''Repository connection not found'', server)
      | Some connection \<Rightarrow>
     (let tasks = startRealTimeSync (snd server) (mp_id project);
          st = snd (updateSyncStatus (fst server) newId now (mp_id project)
                      (\<lambda>s. s\<lparr> sy_syncType := INCREMENTAL, sy_status := SYNCING,
                               sy_itemsProcessed := 0 \<rparr>))
      in (Reply 200 ''Real-time sync started successfully'', (st, tasks)))))"

section \<open>The tier rule as the specification words it\<close>

text \<open>
  SIMPLE when the sum of transformation, session and dependency counts is 0, MEDIUM when
  it is at most 5, COMPLEX otherwise. The adapters are compared with this rule below.
\<close>

definition tierOfCount :: "nat \<Rightarrow> complexity_tier" where
  "tierOfCount n = (if n = 0 then SIMPLE else if n \<le> 5 then MEDIUM else COMPLEX)"

section \<open>Sample data\<close>

text \<open>
  A storage with one REST connection and one project on it, and three repositories: one
  whose lists are all empty, one holding an XML parser transformation and two mappings,
  one that refuses the login, and two variants of the second whose workflow read fails
  (with a response that is not \<open>ok\<close>, and with a rejected request).
\<close>

definition emptyRecord :: raw_record where
  "emptyRecord =
     \<lparr> r_name = None, r_folder = None, r_isValid = None, r_sessions = None,
       r_dependencies = None, r_transformations = None, r_sources = None, r_targets = None,
       r_mappingName = None, r_sessionType = None, r_type = None, r_connectionName = None,
       r_expressions = None \<rparr>"

definition sampleConnection :: RepositoryConnection where
  "sampleConnection =
     \<lparr> rc_id = ''c1'', rc_name = ''Production'', rc_hostname = ''pc-server-01'', rc_port = 6005,
       rc_repositoryName = ''PC_REPO'', rc_username = ''admin'', rc_isActive = True,
       rc_lastConnected = None, rc_connectionType = REST_API, rc_apiVersion = None,
       rc_createdAt = 0 \<rparr>"

definition sampleProject :: MigrationProject where
  "sampleProject =
     \<lparr> mp_id = ''p1'', mp_name = ''Customer Data Migration'', mp_description = None,
       mp_repositoryConnectionId = ''c1'', mp_status = DISCOVERY,
       mp_autoMigrationPercentage = Some (Num 0), mp_totalObjects = Some (Num 0),
       mp_migratedObjects = Some (Num 0), mp_createdAt = 0, mp_updatedAt = 0 \<rparr>"

definition sampleStorage :: MemStorage where
  "sampleStorage =
     \<lparr> repositoryConnections = [(''c1'', sampleConnection)],
       migrationProjects = [(''p1'', sampleProject)],
       powerCenterObjects = [],
       assessmentResults = [],
       syncStatuses = [] \<rparr>"

definition emptyRepository :: rest_server where
  "emptyRepository =
     \<lparr> rest_login = HttpResponse True (Inr (Some ''token'')),
       rest_workflows = (\<lambda>token. HttpResponse True (Inr (Some []))),
       rest_mappings = (\<lambda>token. HttpResponse True (Inr (Some []))),
       rest_sessions = (\<lambda>token. HttpResponse True (Inr (Some []))),
       rest_transformations = (\<lambda>token. HttpResponse True (Inr (Some []))),
       rest_sources = (\<lambda>token. HttpResponse True (Inr (Some []))),
       rest_targets = (\<lambda>token. HttpResponse True (Inr (Some []))) \<rparr>"

definition xmlRepository :: rest_server where
  "xmlRepository =
     emptyRepository
       \<lparr> rest_mappings := (\<lambda>token. HttpResponse True (Inr (Some
            [emptyRecord\<lparr> r_name := Some ''M_Customer'', r_folder := Some ''Mappings'' \<rparr>,
             emptyRecord\<lparr> r_name := Some ''M_Orders'', r_folder := Some ''Mappings'' \<rparr>]))),
         rest_transformations := (\<lambda>token. HttpResponse True (Inr (Some
            [emptyRecord\<lparr> r_name := Some ''X_Parse'', r_folder := Some ''Mappings'',
                           r_type := Some ''XML_PARSER'' \<rparr>]))) \<rparr>"

definition refusingRepository :: rest_server where
  "refusingRepository = emptyRepository\<lparr> rest_login := HttpResponse False (Inr None) \<rparr>"

definition sampleOutside :: "rest_server \<Rightarrow> outside" where
  "sampleOutside srv =
     \<lparr> out_rest = srv,
       out_pmrep = \<lparr> pmrep_connect = ExecFailed ''pmrep: not found'',
                     pmrep_list = (\<lambda>kind. ExecFailed ''pmrep: not found'') \<rparr>,
       out_ids = (\<lambda>i. replicate (Suc i) CHR ''x''),
       out_now = 1 \<rparr>"

definition workflowsDownRepository :: rest_server where
  "workflowsDownRepository =
     xmlRepository\<lparr> rest_workflows := (\<lambda>token. HttpResponse False (Inr None)) \<rparr>"

definition samplePayload :: PowerCenterDiscoveryResult where
  "samplePayload =
     \<lparr> workflows = [], mappings = [], sessions = [],
       transformations = [\<lparr> tr_name = Some ''X_Parse'', tr_folder = Some ''Mappings'',
                            tr_type = Some ''XML_PARSER'', tr_mappingName = None,
                            tr_expressions = [], tr_metadata = RawOutput [] \<rparr>],
       sources = [], targets = [] \<rparr>"

definition workflowsRejectedRepository :: rest_server where
  "workflowsRejectedRepository =
     xmlRepository\<lparr> rest_workflows := (\<lambda>token. FetchRejected ''socket hang up'') \<rparr>"

definition sampleHost :: pmrep_host where
  "sampleHost = \<lparr> pmrep_connect = ExecOk [], pmrep_list = (\<lambda>kind. ExecOk []) \<rparr>"

definition unreachableHost :: pmrep_host where
  "unreachableHost = \<lparr> pmrep_connect = ExecFailed ''pmrep: not found'',
                         pmrep_list = (\<lambda>kind. ExecFailed ''pmrep: not found'') \<rparr>"

text \<open>The events of a discovery whose list commands complete in issue order, and in reverse.\<close>

definition inOrderEvents :: "pmrep_event list" where
  "inOrderEvents =
     [Issued Connect, Completed Connect] @ map Issued listCommands
       @ map Completed listCommands @ [Returned]"

definition reverseOrderEvents :: "pmrep_event list" where
  "reverseOrderEvents =
     [Issued Connect, Completed Connect] @ map Issued listCommands
       @ map Completed (rev listCommands) @ [Returned]"

text \<open>One line of pmrep output for a workflow: name, folder and validity, tab-separated.\<close>

definition sampleWorkflowLine :: string where
  "sampleWorkflowLine = ''wf_load'' @ [CHR 0x09] @ ''ETL'' @ [CHR 0x09] @ ''valid workflow''"

text \<open>One line of pmrep output for a mapping: name and folder.\<close>

definition sampleMappingLine :: string where
  "sampleMappingLine = ''m_load'' @ [CHR 0x09] @ ''ETL mapping''"

text \<open>A pmrep host whose workflow listing fails and whose mapping listing has one line.\<close>

definition workflowListFailsHost :: pmrep_host where
  "workflowListFailsHost =
     \<lparr> pmrep_connect = ExecOk [],
       pmrep_list = (\<lambda>kind. if kind = WORKFLOW then ExecFailed ''listobjects failed''
                           else if kind = MAPPING then ExecOk sampleMappingLine
                           else ExecOk []) \<rparr>"

section \<open>Properties\<close>

subsection \<open>Unfolding sets and storage lemmas\<close>

lemmas rest_defs = discoverRepositoryViaRest_def authenticateRest_def restFanOut_def
  getWorkflowsViaRest_def getMappingsViaRest_def getSessionsViaRest_def
  getTransformationsViaRest_def getSourcesViaRest_def getTargetsViaRest_def readViaRest_def
  restWorkflow_def restMapping_def restSession_def restTransformation_def restSource_def
  restTarget_def message_def

lemmas storage_defs = getMigrationProject_def getRepositoryConnection_def
  updateMigrationProject_def createPowerCenterObject_def bulkCreatePowerCenterObjects_def
  updateSyncStatus_def getPowerCenterObjects_def map_values_def createAssessmentResult_def
  getSyncStatus_def

lemmas sample_defs = sampleStorage_def sampleOutside_def sampleProject_def sampleConnection_def
  emptyRepository_def xmlRepository_def refusingRepository_def workflowsDownRepository_def
  workflowsRejectedRepository_def emptyRecord_def

lemmas discover_defs = discover_def discoveryFailed_def allObjects_def autoMigrationPercentage_def
  js_divide_def js_times_def js_Math_round_def Let_def

lemma map_get_map_set: "map_get (map_set k v m) k' = (if k' = k then Some v else map_get m k')"
  by (induction m) auto

lemma map_set_entries: "(k', x) \<in> set (map_set k v m) \<Longrightarrow> x = v \<or> (k', x) \<in> set m"
  by (induction m) (auto split: if_splits)

lemma map_set_values:
  "x \<in> set (map_values (map_set k v m)) \<Longrightarrow> x = v \<or> x \<in> set (map_values m)"
  unfolding map_values_def using map_set_entries[of _ x k v m] by force

subsection \<open>Coverage bands of discovered objects\<close>

lemma allObjects_bands:
  "obj \<in> set (allObjects pid dr) \<Longrightarrow>
     (io_migrationStatus obj = FULLY_AUTO \<longrightarrow> io_automationCoverage obj \<ge> 80) \<and>
     (io_migrationStatus obj = MANUAL_REDESIGN \<longrightarrow> io_automationCoverage obj \<le> 30)"
  by (auto simp: allObjects_def workflowObject_def mappingObject_def sessionObject_def
        transformationObject_def sourceObject_def targetObject_def split: if_splits)

text \<open>Every object that the bulk creation returns carries the status and coverage of its input.\<close>

lemma bulkCreateFrom_results:
  "r \<in> set (fst (bulkCreateFrom st ids now i objs)) \<Longrightarrow>
     \<exists>obj \<in> set objs. pco_migrationStatus r = io_migrationStatus obj \<and>
        pco_automationCoverage r = io_automationCoverage obj"
proof (induction objs arbitrary: st i)
  case Nil
  then show ?case by simp
next
  case (Cons a objs)
  obtain r1 st1 where c: "createPowerCenterObject st (ids i) now a = (r1, st1)"
    by (cases "createPowerCenterObject st (ids i) now a")
  obtain rs st2 where b: "bulkCreateFrom st1 ids now (Suc i) objs = (rs, st2)"
    by (cases "bulkCreateFrom st1 ids now (Suc i) objs")
  from Cons.prems c b have "r = r1 \<or> r \<in> set rs" by simp
  then show ?case
  proof
    assume "r = r1"
    with c have "pco_migrationStatus r = io_migrationStatus a \<and>
        pco_automationCoverage r = io_automationCoverage a"
      by (auto simp: createPowerCenterObject_def Let_def)
    then show ?thesis by simp
  next
    assume "r \<in> set rs"
    with Cons.IH[of st1 "Suc i"] b show ?thesis by simp
  qed
qed

text \<open>What the store holds after the bulk creation was there before or was created by it.\<close>

lemma bulkCreateFrom_store:
  "x \<in> set (map_values (powerCenterObjects (snd (bulkCreateFrom st ids now i objs)))) \<Longrightarrow>
     x \<in> set (map_values (powerCenterObjects st)) \<or> x \<in> set (fst (bulkCreateFrom st ids now i objs))"
proof (induction objs arbitrary: st i)
  case Nil
  then show ?case by simp
next
  case (Cons a objs)
  obtain r st1 where c: "createPowerCenterObject st (ids i) now a = (r, st1)"
    by (cases "createPowerCenterObject st (ids i) now a")
  obtain rs st2 where b: "bulkCreateFrom st1 ids now (Suc i) objs = (rs, st2)"
    by (cases "bulkCreateFrom st1 ids now (Suc i) objs")
  from Cons.prems c b have "x \<in> set (map_values (powerCenterObjects st2))" by simp
  with Cons.IH[of st1 "Suc i"] b
  have "x \<in> set (map_values (powerCenterObjects st1)) \<or> x \<in> set rs" by simp
  moreover have "x \<in> set (map_values (powerCenterObjects st1)) \<Longrightarrow>
      x = r \<or> x \<in> set (map_values (powerCenterObjects st))"
    using c map_set_values[of x "ids i" r "powerCenterObjects st"]
    by (auto simp: createPowerCenterObject_def Let_def)
  ultimately show ?case using c b by auto
qed

lemma bulk_created_bands:
  assumes "r \<in> set (fst (bulkCreatePowerCenterObjects st ids now (allObjects pid dr)))"
  shows "(pco_migrationStatus r = FULLY_AUTO \<longrightarrow> pco_automationCoverage r \<ge> 80) \<and>
         (pco_migrationStatus r = MANUAL_REDESIGN \<longrightarrow> pco_automationCoverage r \<le> 30)"
proof -
  from assms obtain obj where "obj \<in> set (allObjects pid dr)"
    and "pco_migrationStatus r = io_migrationStatus obj"
    and "pco_automationCoverage r = io_automationCoverage obj"
    using bulkCreateFrom_results unfolding bulkCreatePowerCenterObjects_def by blast
  with allObjects_bands[of obj pid dr] show ?thesis by simp
qed

text \<open>The discovery route touches the stored objects only through the bulk creation.\<close>

lemma updateMigrationProject_objects:
  "updateMigrationProject st now pid u = Inr (p, st') \<Longrightarrow>
     powerCenterObjects st' = powerCenterObjects st"
  by (auto simp: updateMigrationProject_def Let_def split: option.splits)

lemma discoveryFailed_keeps_objects:
  "powerCenterObjects (snd (discoveryFailed st out pid e)) = powerCenterObjects st"
  by (auto simp: discoveryFailed_def split: sum.splits dest: updateMigrationProject_objects)

lemma updateSyncStatus_objects:
  "powerCenterObjects (snd (updateSyncStatus st newId now pid u)) = powerCenterObjects st"
  by (simp add: updateSyncStatus_def Let_def)

lemma discover_store:
  "powerCenterObjects (snd (discover st out pid)) = powerCenterObjects st \<or>
   (\<exists>st1 p dr. powerCenterObjects st1 = powerCenterObjects st \<and>
      powerCenterObjects (snd (discover st out pid)) =
        powerCenterObjects (snd (bulkCreatePowerCenterObjects st1 (out_ids out) (out_now out)
                                   (allObjects p dr))))"
proof (cases "getMigrationProject st pid")
  case None
  then show ?thesis by (simp add: discover_def)
next
  case (Some project)
  note project = this
  show ?thesis
  proof (cases "getRepositoryConnection st (mp_repositoryConnectionId project)")
    case None
    with project show ?thesis by (simp add: discover_def)
  next
    case (Some connection)
    note connection = this
    show ?thesis
    proof (cases "updateMigrationProject st (out_now out) (mp_id project)
                    (\<lambda>p. p\<lparr> mp_status := DISCOVERY \<rparr>)")
      case (Inl e)
      with project connection show ?thesis
        by (simp add: discover_def discoveryFailed_keeps_objects)
    next
      case (Inr r)
      obtain p1 st1 where r: "r = (p1, st1)" by (cases r)
      with Inr have st1: "powerCenterObjects st1 = powerCenterObjects st"
        using updateMigrationProject_objects by blast
      show ?thesis
      proof (cases "if rc_connectionType connection = REST_API
            then discoverRepositoryViaRest (out_rest out)
            else discoverRepositoryViaPmrep (out_pmrep out)")
        case (Inl e)
        with project connection Inr r st1 show ?thesis
          by (simp add: discover_def discoveryFailed_keeps_objects)
      next
        case payload: (Inr discoveryResult)
        let ?st2 = "snd (bulkCreatePowerCenterObjects st1 (out_ids out) (out_now out)
                       (allObjects (mp_id project) discoveryResult))"
        have "powerCenterObjects (snd (discover st out pid)) = powerCenterObjects ?st2"
          using project connection Inr r payload
          by (auto simp: discover_def Let_def discoveryFailed_keeps_objects updateSyncStatus_objects
                split: sum.splits dest: updateMigrationProject_objects)
        with st1 show ?thesis by blast
      qed
    qed
  qed
qed

text \<open>
  C1. Every object that the discovery pipeline creates and persists satisfies: status
  FULLY_AUTO implies coverage at least 80, status MANUAL_REDESIGN implies coverage at most
  30. This holds of every object the bulk creation returns for the objects built from a
  payload, and every object in the store after a discovery request was in the store
  before the request or satisfies the two implications.
\<close>

theorem discovered_objects_coverage_bands:
  "(\<forall>r \<in> set (fst (bulkCreatePowerCenterObjects st ids now (allObjects projectId dr))).
      (pco_migrationStatus r = FULLY_AUTO \<longrightarrow> pco_automationCoverage r \<ge> 80) \<and>
      (pco_migrationStatus r = MANUAL_REDESIGN \<longrightarrow> pco_automationCoverage r \<le> 30)) \<and>
   (\<forall>r \<in> set (map_values (powerCenterObjects (snd (discover st out pid)))).
      r \<in> set (map_values (powerCenterObjects st)) \<or>
      (pco_migrationStatus r = FULLY_AUTO \<longrightarrow> pco_automationCoverage r \<ge> 80) \<and>
      (pco_migrationStatus r = MANUAL_REDESIGN \<longrightarrow> pco_automationCoverage r \<le> 30))"
proof -
  have stored: "r \<in> set (map_values (powerCenterObjects st)) \<or>
      (pco_migrationStatus r = FULLY_AUTO \<longrightarrow> pco_automationCoverage r \<ge> 80) \<and>
      (pco_migrationStatus r = MANUAL_REDESIGN \<longrightarrow> pco_automationCoverage r \<le> 30)"
    if r: "r \<in> set (map_values (powerCenterObjects (snd (discover st out pid))))" for r
  proof -
    from discover_store[of st out pid] consider
        (kept) "powerCenterObjects (snd (discover st out pid)) = powerCenterObjects st"
      | (created) st1 p payload where "powerCenterObjects st1 = powerCenterObjects st"
          and "powerCenterObjects (snd (discover st out pid)) =
                 powerCenterObjects (snd (bulkCreatePowerCenterObjects st1 (out_ids out) (out_now out)
                                            (allObjects p payload)))"
      by blast
    then show ?thesis
    proof cases
      case kept
      with r show ?thesis by simp
    next
      case created
      from r created(2)
      have "r \<in> set (map_values (powerCenterObjects
                (snd (bulkCreatePowerCenterObjects st1 (out_ids out) (out_now out)
                        (allObjects p payload)))))"
        by simp
      then have "r \<in> set (map_values (powerCenterObjects st1)) \<or>
          r \<in> set (fst (bulkCreatePowerCenterObjects st1 (out_ids out) (out_now out)
                           (allObjects p payload)))"
        unfolding bulkCreatePowerCenterObjects_def by (rule bulkCreateFrom_store)
      with created(1) bulk_created_bands[of r st1 "out_ids out" "out_now out" p payload]
      show ?thesis by auto
    qed
  qed
  from bulk_created_bands stored show ?thesis by blast
qed

text \<open>The objects that the discovery route persists for the XML sample repository.\<close>

lemma xml_discovery:
  "powerCenterObjects (snd (discover sampleStorage (sampleOutside xmlRepository) ''p1'')) =
     [(''x'', \<lparr> pco_id = ''x'', pco_projectId = ''p1'', pco_objectName = Some ''M_Customer'',
               pco_objectType = MAPPING, pco_folderName = Some ''Mappings'', pco_complexity = SIMPLE,
               pco_migrationStatus = FULLY_AUTO, pco_automationCoverage = 90, pco_dependencies = [],
               pco_metadata = RestRecord (emptyRecord\<lparr> r_name := Some ''M_Customer'',
                                                        r_folder := Some ''Mappings'' \<rparr>),
               pco_lastScanned = 1 \<rparr>),
      (''xx'', \<lparr> pco_id = ''xx'', pco_projectId = ''p1'', pco_objectName = Some ''M_Orders'',
               pco_objectType = MAPPING, pco_folderName = Some ''Mappings'', pco_complexity = SIMPLE,
               pco_migrationStatus = FULLY_AUTO, pco_automationCoverage = 90, pco_dependencies = [],
               pco_metadata = RestRecord (emptyRecord\<lparr> r_name := Some ''M_Orders'',
                                                        r_folder := Some ''Mappings'' \<rparr>),
               pco_lastScanned = 1 \<rparr>),
      (''xxx'', \<lparr> pco_id = ''xxx'', pco_projectId = ''p1'', pco_objectName = Some ''X_Parse'',
               pco_objectType = TRANSFORMATION, pco_folderName = Some ''Mappings'',
               pco_complexity = MEDIUM, pco_migrationStatus = MANUAL_REDESIGN,
               pco_automationCoverage = 20, pco_dependencies = [],
               pco_metadata = RestRecord (emptyRecord\<lparr> r_name := Some ''X_Parse'',
                                                        r_folder := Some ''Mappings'',
                                                        r_type := Some ''XML_PARSER'' \<rparr>),
               pco_lastScanned = 1 \<rparr>)]"
  by (simp add: discover_defs rest_defs storage_defs sample_defs
        mappingObject_def transformationObject_def calculateComplexity_def componentCount_def
        length_or_0_def or_empty_def numeral_2_eq_2 numeral_3_eq_3)

text \<open>
  C1 at the sample payload and at the XML sample repository: the XML parser
  transformation is created with status MANUAL_REDESIGN and coverage at most 30, and the
  first object in the store after the discovery request, a mapping that was not there
  before, has status FULLY_AUTO and coverage at least 80.
\<close>

theorem discovered_objects_coverage_bands_witness:
  "hd (fst (bulkCreatePowerCenterObjects sampleStorage (\<lambda>i. ''x'') 1 (allObjects ''p1'' samplePayload)))
     \<in> set (fst (bulkCreatePowerCenterObjects sampleStorage (\<lambda>i. ''x'') 1 (allObjects ''p1'' samplePayload))) \<and>
   pco_migrationStatus
     (hd (fst (bulkCreatePowerCenterObjects sampleStorage (\<lambda>i. ''x'') 1 (allObjects ''p1'' samplePayload))))
     = MANUAL_REDESIGN \<and>
   pco_automationCoverage
     (hd (fst (bulkCreatePowerCenterObjects sampleStorage (\<lambda>i. ''x'') 1 (allObjects ''p1'' samplePayload))))
     \<le> 30 \<and>
   map_values (powerCenterObjects sampleStorage) = [] \<and>
   pco_migrationStatus
     (hd (map_values (powerCenterObjects (snd (discover sampleStorage (sampleOutside xmlRepository) ''p1'')))))
     = FULLY_AUTO \<and>
   pco_automationCoverage
     (hd (map_values (powerCenterObjects (snd (discover sampleStorage (sampleOutside xmlRepository) ''p1'')))))
     \<ge> 80"
proof -
  let ?rs = "fst (bulkCreatePowerCenterObjects sampleStorage (\<lambda>i. ''x'') 1 (allObjects ''p1'' samplePayload))"
  let ?after = "map_values (powerCenterObjects (snd (discover sampleStorage (sampleOutside xmlRepository) ''p1'')))"
  note bands = discovered_objects_coverage_bands
      [of sampleStorage "\<lambda>i. ''x''" 1 "''p1''" samplePayload "sampleOutside xmlRepository" "''p1''"]
  have mem: "hd ?rs \<in> set ?rs"
    by (simp add: bulkCreatePowerCenterObjects_def createPowerCenterObject_def allObjects_def
          samplePayload_def Let_def)
  have status: "pco_migrationStatus (hd ?rs) = MANUAL_REDESIGN"
    by (simp add: bulkCreatePowerCenterObjects_def createPowerCenterObject_def allObjects_def
          samplePayload_def transformationObject_def Let_def)
  from bands mem status have created: "pco_automationCoverage (hd ?rs) \<le> 30" by blast
  have before: "map_values (powerCenterObjects sampleStorage) = []"
    by (simp add: map_values_def sampleStorage_def)
  have stored: "hd ?after \<in> set ?after"
    by (simp add: xml_discovery map_values_def)
  have auto: "pco_migrationStatus (hd ?after) = FULLY_AUTO"
    by (simp add: xml_discovery map_values_def)
  from bands stored have "hd ?after \<in> set (map_values (powerCenterObjects sampleStorage)) \<or>
      (pco_migrationStatus (hd ?after) = FULLY_AUTO \<longrightarrow> pco_automationCoverage (hd ?after) \<ge> 80) \<and>
      (pco_migrationStatus (hd ?after) = MANUAL_REDESIGN \<longrightarrow> pco_automationCoverage (hd ?after) \<le> 30)"
    by blast
  with before auto have "pco_automationCoverage (hd ?after) \<ge> 80" by simp
  with mem status created before auto show ?thesis by simp
qed

subsection \<open>Assessment\<close>

text \<open>
  On elements that carry the three properties, the loop behaves as described: an XML
  parser transformation and two other objects score 2, which gives coverage 67 and the
  tier MEDIUM.
\<close>

lemma assess_objects_with_type:
  "automationScore
     [\<lparr> o_type = Some ''XML_PARSER'', o_name = Some ''X_Parse'', o_expressions = Some [] \<rparr>,
      \<lparr> o_type = None, o_name = Some ''M_Customer'', o_expressions = None \<rparr>,
      \<lparr> o_type = None, o_name = Some ''M_Orders'', o_expressions = None \<rparr>] = 2 \<and>
   assessMigrationComplexity
     [\<lparr> o_type = Some ''XML_PARSER'', o_name = Some ''X_Parse'', o_expressions = Some [] \<rparr>,
      \<lparr> o_type = None, o_name = Some ''M_Customer'', o_expressions = None \<rparr>,
      \<lparr> o_type = None, o_name = Some ''M_Orders'', o_expressions = None \<rparr>]
     = \<lparr> as_complexity = MEDIUM, as_automationCoverage = 67,
         as_issues = [''Unsupported transformation: X_Parse (XML Parser)''] \<rparr>"
  by (simp add: assessMigrationComplexity_def automationScore_def assessObject_def hasDecode_def
        template_def Math_round_def floor_eq_iff)

text \<open>
  On persisted objects no branch of the loop but the increment is ever taken: the score is
  the number of objects and no issue is recorded.
\<close>

lemma persisted_fold:
  "foldl assessObject (issues, score) (map persistedAsObject objs)
     = (issues, score + of_nat (length objs))"
  by (induction objs arbitrary: score)
     (simp_all add: assessObject_def persistedAsObject_def hasDecode_def add.assoc add.commute)

lemma persisted_score: "automationScore (map persistedAsObject objs) = of_nat (length objs)"
  by (simp add: automationScore_def persisted_fold)

lemma persisted_assessment:
  "objs \<noteq> [] \<Longrightarrow>
     assessMigrationComplexity (map persistedAsObject objs)
       = \<lparr> as_complexity = SIMPLE, as_automationCoverage = 100, as_issues = [] \<rparr>"
  by (simp add: assessMigrationComplexity_def automationScore_def persisted_fold Math_round_def
        floor_eq_iff)

text \<open>
  C2. For three objects, one transformation of the XML parser subtype and two mappings
  without a legacy-only expression, the claim expects score 2, coverage 67, tier MEDIUM
  and an effort of 6 hours. The assessment route reads the objects back from the storage.
  For the project discovered from the XML sample repository (two mappings, one XML parser
  transformation classified MANUAL_REDESIGN) it answers tier SIMPLE, coverage 100, no
  issue, effort 6: the persisted transformation has no property \<open>type\<close>, so it is
  counted as automatable.
\<close>

theorem assess_route_misses_persisted_xml_parser:
  "map pco_objectType
       (getPowerCenterObjects (snd (discover sampleStorage (sampleOutside xmlRepository) ''p1'')) ''p1'')
     = [MAPPING, MAPPING, TRANSFORMATION] \<and>
   map pco_migrationStatus
       (getPowerCenterObjects (snd (discover sampleStorage (sampleOutside xmlRepository) ''p1'')) ''p1'')
     = [FULLY_AUTO, FULLY_AUTO, MANUAL_REDESIGN] \<and>
   automationScore (map persistedAsObject
       (getPowerCenterObjects (snd (discover sampleStorage (sampleOutside xmlRepository) ''p1'')) ''p1''))
     = 3 \<and>
   replied (fst (assess (snd (discover sampleStorage (sampleOutside xmlRepository) ''p1'')) ''a1'' 2 ''p1''))
     = Some \<lparr> ar_id = ''a1'', ar_projectId = ''p1'', ar_objectId = ''project-level'',
              ar_assessmentType = COMPLEXITY, ar_result = SIMPLE, ar_confidence = 85,
              ar_recommendations = [], ar_issues_automationCoverage = 100,
              ar_estimatedEffort = 6, ar_createdAt = 2 \<rparr>"
  by (simp add: xml_discovery assess_def replied_def getPowerCenterObjects_def map_values_def
        createAssessmentResult_def assessMigrationComplexity_def automationScore_def
        assessObject_def persistedAsObject_def hasDecode_def Math_round_def Let_def
        floor_eq_iff ceiling_eq_iff)

text \<open>
  C6, as amended. With no object the assessment returns coverage 0 and the tier COMPLEX
  (0 is neither above 80 nor above 50); so does the assessment route for every project
  that has no persisted object.
\<close>

theorem zero_objects_assessed_complex:
  "as_automationCoverage (assessMigrationComplexity []) = 0 \<and>
   as_complexity (assessMigrationComplexity []) = COMPLEX \<and>
   (getPowerCenterObjects st pid = [] \<longrightarrow>
      map_option ar_result (replied (fst (assess st newId now pid))) = Some COMPLEX \<and>
      map_option ar_issues_automationCoverage (replied (fst (assess st newId now pid))) = Some 0)"
  by (simp add: assessMigrationComplexity_def Math_round_def floor_eq_iff assess_def replied_def
        createAssessmentResult_def Let_def)

text \<open>C6 at the sample storage, whose project has no object.\<close>

theorem zero_objects_assessed_complex_witness:
  "getPowerCenterObjects sampleStorage ''p1'' = [] \<and>
   map_option ar_result (replied (fst (assess sampleStorage ''a1'' 2 ''p1''))) = Some COMPLEX \<and>
   map_option ar_issues_automationCoverage (replied (fst (assess sampleStorage ''a1'' 2 ''p1''))) = Some 0"
proof -
  have empty: "getPowerCenterObjects sampleStorage ''p1'' = []"
    by (simp add: getPowerCenterObjects_def map_values_def sampleStorage_def)
  with zero_objects_assessed_complex[of sampleStorage "''p1''" "''a1''" 2]
  show ?thesis by blast
qed

text \<open>
  C6 as stated fails: for the sample project, which has no object, the tier is not SIMPLE.
\<close>

theorem zero_objects_not_simple_counterexample:
  "getPowerCenterObjects sampleStorage ''p1'' = [] \<and>
   as_complexity (assessMigrationComplexity []) \<noteq> SIMPLE \<and>
   map_option ar_result (replied (fst (assess sampleStorage ''a1'' 2 ''p1''))) \<noteq> Some SIMPLE"
  by (simp add: getPowerCenterObjects_def map_values_def sampleStorage_def
        assessMigrationComplexity_def assess_def replied_def createAssessmentResult_def Let_def)

subsection \<open>Structural complexity by adapter\<close>

text \<open>
  C3, as amended. On the REST path the tier of a workflow record and of a mapping record
  follows the rule of the specification on the sum of the three counts of the raw record.
  On the pmrep path every parsed workflow and mapping record has the tier MEDIUM and
  empty component lists.
\<close>

theorem complexity_tier_by_adapter:
  "wf_complexity (restWorkflow w) = tierOfCount (componentCount w) \<and>
   mg_complexity (restMapping m) = tierOfCount (componentCount m) \<and>
   (\<forall>x \<in> set (parsePmrepWorkflowOutput output).
      wf_complexity x = MEDIUM \<and> wf_sessions x = [] \<and> wf_dependencies x = []) \<and>
   (\<forall>x \<in> set (parsePmrepMappingOutput output).
      mg_complexity x = MEDIUM \<and> mg_transformations x = [])"
proof (intro conjI ballI)
  show "wf_complexity (restWorkflow w) = tierOfCount (componentCount w)"
    by (simp add: restWorkflow_def calculateComplexity_def tierOfCount_def)
  show "mg_complexity (restMapping m) = tierOfCount (componentCount m)"
    by (simp add: restMapping_def calculateComplexity_def tierOfCount_def)
next
  fix x assume "x \<in> set (parsePmrepWorkflowOutput output)"
  then have "wf_complexity x = MEDIUM \<and> wf_sessions x = [] \<and> wf_dependencies x = []"
    by (auto simp: parsePmrepWorkflowOutput_def split: if_splits)
  then show "wf_complexity x = MEDIUM" and "wf_sessions x = []" and "wf_dependencies x = []"
    by simp_all
next
  fix x assume "x \<in> set (parsePmrepMappingOutput output)"
  then have "mg_complexity x = MEDIUM \<and> mg_transformations x = []"
    by (auto simp: parsePmrepMappingOutput_def split: if_splits)
  then show "mg_complexity x = MEDIUM" and "mg_transformations x = []"
    by simp_all
qed

lemma sample_workflow_parsed:
  "parsePmrepWorkflowOutput sampleWorkflowLine =
     [\<lparr> wf_name = Some ''wf_load'', wf_folder = Some ''ETL'', wf_isValid = Some False,
        wf_sessions = [], wf_dependencies = [], wf_complexity = MEDIUM,
        wf_metadata = RawOutput sampleWorkflowLine \<rparr>]"
  by (simp add: parsePmrepWorkflowOutput_def nonblank_lines_def trim_def is_white_space_def
        sampleWorkflowLine_def)

lemma sample_mapping_parsed:
  "parsePmrepMappingOutput sampleMappingLine =
     [\<lparr> mg_name = Some ''m_load'', mg_folder = Some ''ETL mapping'', mg_transformations = [],
        mg_sources = [], mg_targets = [], mg_complexity = MEDIUM,
        mg_metadata = RawOutput sampleMappingLine \<rparr>]"
  by (simp add: parsePmrepMappingOutput_def nonblank_lines_def trim_def is_white_space_def
        sampleMappingLine_def)

text \<open>
  C3 at the sample lines of pmrep output and at two raw REST records: the parsed workflow
  and mapping have the tier MEDIUM; a raw workflow with two sessions and a raw mapping
  with six transformations get the tiers of the sums 2 and 6.
\<close>

theorem complexity_tier_by_adapter_witness:
  "hd (parsePmrepWorkflowOutput sampleWorkflowLine) \<in> set (parsePmrepWorkflowOutput sampleWorkflowLine) \<and>
   wf_complexity (hd (parsePmrepWorkflowOutput sampleWorkflowLine)) = MEDIUM \<and>
   hd (parsePmrepMappingOutput sampleMappingLine) \<in> set (parsePmrepMappingOutput sampleMappingLine) \<and>
   mg_complexity (hd (parsePmrepMappingOutput sampleMappingLine)) = MEDIUM \<and>
   wf_complexity (restWorkflow (emptyRecord\<lparr> r_sessions := Some [''s1'', ''s2''] \<rparr>)) = tierOfCount 2 \<and>
   mg_complexity (restMapping (emptyRecord\<lparr> r_transformations :=
        Some [''t1'', ''t2'', ''t3'', ''t4'', ''t5'', ''t6''] \<rparr>)) = tierOfCount 6"
proof -
  have wmem: "hd (parsePmrepWorkflowOutput sampleWorkflowLine)
      \<in> set (parsePmrepWorkflowOutput sampleWorkflowLine)"
    by (simp add: sample_workflow_parsed)
  have mmem: "hd (parsePmrepMappingOutput sampleMappingLine)
      \<in> set (parsePmrepMappingOutput sampleMappingLine)"
    by (simp add: sample_mapping_parsed)
  have wcount: "componentCount (emptyRecord\<lparr> r_sessions := Some [''s1'', ''s2''] \<rparr>) = 2"
    by (simp add: componentCount_def length_or_0_def emptyRecord_def)
  have mcount: "componentCount (emptyRecord\<lparr> r_transformations :=
        Some [''t1'', ''t2'', ''t3'', ''t4'', ''t5'', ''t6''] \<rparr>) = 6"
    by (simp add: componentCount_def length_or_0_def emptyRecord_def)
  from complexity_tier_by_adapter
         [of "emptyRecord\<lparr> r_sessions := Some [''s1'', ''s2''] \<rparr>"
             "emptyRecord\<lparr> r_transformations := Some [''t1'', ''t2'', ''t3'', ''t4'', ''t5'', ''t6''] \<rparr>"
             sampleWorkflowLine]
    wmem wcount mcount
  have "wf_complexity (hd (parsePmrepWorkflowOutput sampleWorkflowLine)) = MEDIUM \<and>
      wf_complexity (restWorkflow (emptyRecord\<lparr> r_sessions := Some [''s1'', ''s2''] \<rparr>)) = tierOfCount 2 \<and>
      mg_complexity (restMapping (emptyRecord\<lparr> r_transformations :=
        Some [''t1'', ''t2'', ''t3'', ''t4'', ''t5'', ''t6''] \<rparr>)) = tierOfCount 6"
    by auto
  moreover
  from complexity_tier_by_adapter[of _ _ sampleMappingLine] mmem
  have "mg_complexity (hd (parsePmrepMappingOutput sampleMappingLine)) = MEDIUM"
    by blast
  ultimately show ?thesis using wmem mmem by simp
qed

text \<open>
  C3 as stated fails on the pmrep path: the workflow parsed from the sample line has no
  session and no dependency, the rule gives SIMPLE for the sum 0, and its tier is MEDIUM.
\<close>

theorem pmrep_workflow_tier_counterexample:
  "map wf_sessions (parsePmrepWorkflowOutput sampleWorkflowLine) = [[]] \<and>
   map wf_dependencies (parsePmrepWorkflowOutput sampleWorkflowLine) = [[]] \<and>
   tierOfCount 0 = SIMPLE \<and>
   map wf_complexity (parsePmrepWorkflowOutput sampleWorkflowLine) = [MEDIUM]"
  by (simp add: sample_workflow_parsed tierOfCount_def)

subsection \<open>Classification of transformations\<close>

text \<open>
  C4. The claim expects every transformation of a known-unsupported subtype, the
  messaging-queue one included, to be classified MANUAL_REDESIGN with coverage 20. The
  discovery route classifies a transformation of type MQSERIES as PARTIAL with coverage
  75, while the assessment loop reports the same type as unsupported.
\<close>

theorem mqseries_transformation_classified_partial:
  "io_migrationStatus (transformationObject pid (t\<lparr> tr_type := Some ''MQSERIES'' \<rparr>)) = PARTIAL \<and>
   io_automationCoverage (transformationObject pid (t\<lparr> tr_type := Some ''MQSERIES'' \<rparr>)) = 75 \<and>
   assessObject (issues, score)
       (transformationAsObject (t\<lparr> tr_type := Some ''MQSERIES'', tr_expressions := [] \<rparr>))
     = (issues @ [''Unsupported transformation: '' @ template (tr_name t) @ '' (MQSeries)''], score)"
  by (simp add: transformationObject_def assessObject_def transformationAsObject_def hasDecode_def)

subsection \<open>Statistics of an empty discovery\<close>

lemma empty_percentage: "autoMigrationPercentage [] = NaN"
  by (simp add: autoMigrationPercentage_def js_divide_def js_times_def js_Math_round_def)

text \<open>
  C5. The claim expects that after a discovery with an empty payload no object is
  persisted and totalObjects and autoMigrationPercentage of the project both read 0.
  For the sample project and the repository whose six lists are empty, the route
  persists no object and stores totalObjects 0, but autoMigrationPercentage is
  \<open>Math.round(0 / 0 * 100)\<close>, which is \<open>NaN\<close>.
\<close>

theorem empty_discovery_percentage_nan:
  "discoverRepositoryViaRest emptyRepository =
     Inr \<lparr> workflows = [], mappings = [], sessions = [], transformations = [],
           sources = [], targets = [] \<rparr> \<and>
   powerCenterObjects (snd (discover sampleStorage (sampleOutside emptyRepository) ''p1'')) = [] \<and>
   getMigrationProject (snd (discover sampleStorage (sampleOutside emptyRepository) ''p1'')) ''p1''
     = Some (sampleProject\<lparr> mp_status := ASSESSMENT, mp_totalObjects := Some (Num 0),
                            mp_autoMigrationPercentage := Some NaN, mp_updatedAt := 1 \<rparr>)"
  by (simp add: discover_defs rest_defs storage_defs sample_defs)

subsection \<open>Failures of the REST discovery\<close>

lemma auth_failure_fails_discovery:
  "authenticateRest srv = Inl e \<Longrightarrow>
     discoverRepositoryViaRest srv = Inl (Error (''REST API discovery failed: '' @ message e))"
  by (simp add: discoverRepositoryViaRest_def)

lemma login_not_ok: "rest_login srv = HttpResponse False body \<Longrightarrow>
     authenticateRest srv = Inl (Error ''Authentication failed'')"
  by (simp add: authenticateRest_def)

text \<open>A reader absorbs a response that is not \<open>ok\<close> and nothing else.\<close>

lemma read_not_ok: "readViaRest convert (HttpResponse False body) = Inr []"
  by (simp add: readViaRest_def)

lemma read_rejected: "readViaRest convert (FetchRejected msg) = Inl (Error msg)"
  by (simp add: readViaRest_def)

lemma read_body_rejected: "readViaRest convert (HttpResponse True (Inl msg)) = Inl (Error msg)"
  by (simp add: readViaRest_def)

lemma fan_out_completes:
  "authenticateRest srv = Inr token \<Longrightarrow>
   getWorkflowsViaRest srv token = Inr wfs \<Longrightarrow> getMappingsViaRest srv token = Inr mgs \<Longrightarrow>
   getSessionsViaRest srv token = Inr sss \<Longrightarrow> getTransformationsViaRest srv token = Inr trs \<Longrightarrow>
   getSourcesViaRest srv token = Inr srcs \<Longrightarrow> getTargetsViaRest srv token = Inr tgts \<Longrightarrow>
   discoverRepositoryViaRest srv =
     Inr \<lparr> workflows = wfs, mappings = mgs, sessions = sss, transformations = trs,
           sources = srcs, targets = tgts \<rparr>"
  by (simp add: discoverRepositoryViaRest_def restFanOut_def)

lemma rejected_read_fails_discovery:
  "authenticateRest srv = Inr token \<Longrightarrow> rest_workflows srv token = FetchRejected msg \<Longrightarrow>
     discoverRepositoryViaRest srv = Inl (Error (''REST API discovery failed: '' @ msg))"
  by (simp add: discoverRepositoryViaRest_def restFanOut_def getWorkflowsViaRest_def
        readViaRest_def message_def)

text \<open>
  Whenever the REST adapter throws, for a failed login or for a read that rejects, the
  route answers with status 500 and the stored objects are those from before the request.
\<close>

lemma discoveryFailed_objects:
  "map_get (migrationProjects st) pid = Some p \<Longrightarrow>
     (\<exists>msg. fst (discoveryFailed st out pid e) = ErrorReply 500 msg) \<and>
     powerCenterObjects (snd (discoveryFailed st out pid e)) = powerCenterObjects st"
  by (simp add: discoveryFailed_def updateMigrationProject_def Let_def)

lemma discover_rest_failure:
  assumes project: "getMigrationProject st pid = Some project"
      and connection: "getRepositoryConnection st (mp_repositoryConnectionId project) = Some connection"
      and rest: "rc_connectionType connection = REST_API"
      and thrown: "discoverRepositoryViaRest (out_rest out) = Inl e"
  shows "(\<exists>msg. fst (discover st out pid) = ErrorReply 500 msg) \<and>
         powerCenterObjects (snd (discover st out pid)) = powerCenterObjects st"
proof (cases "updateMigrationProject st (out_now out) (mp_id project) (\<lambda>p. p\<lparr> mp_status := DISCOVERY \<rparr>)")
  case (Inl e')
  have "discover st out pid = discoveryFailed st out pid e'"
    using project connection Inl by (simp add: discover_def)
  moreover have "map_get (migrationProjects st) pid = Some project"
    using project by (simp add: getMigrationProject_def)
  ultimately show ?thesis using discoveryFailed_objects[of st pid project out e'] by simp
next
  case (Inr r)
  obtain p1 st1 where r: "r = (p1, st1)" by (cases r)
  have disc: "discover st out pid = discoveryFailed st1 out pid e"
    using project connection rest Inr r thrown by (simp add: discover_def)
  have st1: "powerCenterObjects st1 = powerCenterObjects st \<and>
      (\<exists>p. map_get (migrationProjects st1) pid = Some p)"
    using Inr r project
    by (auto simp: updateMigrationProject_def getMigrationProject_def Let_def map_get_map_set
          split: option.splits)
  then obtain p where "map_get (migrationProjects st1) pid = Some p" by blast
  from discoveryFailed_objects[OF this, of out e]
  show ?thesis using disc st1 by simp
qed

lemma discover_auth_failure:
  assumes "getMigrationProject st pid = Some project"
      and "getRepositoryConnection st (mp_repositoryConnectionId project) = Some connection"
      and "rc_connectionType connection = REST_API"
      and "authenticateRest (out_rest out) = Inl e"
  shows "(\<exists>msg. fst (discover st out pid) = ErrorReply 500 msg) \<and>
         powerCenterObjects (snd (discover st out pid)) = powerCenterObjects st"
  using assms discover_rest_failure auth_failure_fails_discovery by blast

text \<open>The pmrep readers, in contrast, catch a failed command and give the empty list.\<close>

lemma pmrep_list_failure_absorbed: "listViaPmrep parse (ExecFailed msg) = []"
  by (simp add: listViaPmrep_def)

text \<open>
  C7. The claim expects of a REST discovery that a failed authentication fails the whole
  discovery with nothing persisted, and that a failed read of one kind gives the empty
  list for that kind while the discovery completes with the other kinds. The first half
  holds (lemmas \<open>login_not_ok\<close>, \<open>discover_auth_failure\<close>), and so does the second
  for a read answered with a response that is not \<open>ok\<close>: for the sample repository
  whose workflow read is answered so, the route answers 200 and persists the two mappings
  and the transformation. A read that fails by a rejected request is not absorbed: for
  the sample repository whose workflow request is rejected, with the login accepted and
  the other five reads answered, the adapter throws, the route answers 500 and nothing is
  persisted. The pmrep adapter, on a host whose workflow listing fails, completes with
  no workflow and the mapping listed.
\<close>

theorem rejected_rest_read_aborts_discovery:
  "authenticateRest workflowsRejectedRepository = Inr (Some ''token'') \<and>
   getWorkflowsViaRest workflowsRejectedRepository (Some ''token'') = Inl (Error ''socket hang up'') \<and>
   map mg_name (case getMappingsViaRest workflowsRejectedRepository (Some ''token'') of
                  Inl e \<Rightarrow> [] | Inr ms \<Rightarrow> ms) = [Some ''M_Customer'', Some ''M_Orders''] \<and>
   discoverRepositoryViaRest workflowsRejectedRepository
     = Inl (Error ''REST API discovery failed: socket hang up'') \<and>
   fst (discover sampleStorage (sampleOutside workflowsRejectedRepository) ''p1'')
     = ErrorReply 500 ''REST API discovery failed: socket hang up'' \<and>
   powerCenterObjects (snd (discover sampleStorage (sampleOutside workflowsRejectedRepository) ''p1''))
     = [] \<and>
   getWorkflowsViaRest workflowsDownRepository (Some ''token'') = Inr [] \<and>
   fst (discover sampleStorage (sampleOutside workflowsDownRepository) ''p1'')
     = Reply 200 \<lparr> dr_totalObjects = 3, dr_autoMigrationPercentage = Num 67,
                   dr_workflows = 0, dr_mappings = 2, dr_sessions = 0, dr_transformations = 1,
                   dr_sources = 0, dr_targets = 0 \<rparr> \<and>
   map pco_objectName (map_values (powerCenterObjects
       (snd (discover sampleStorage (sampleOutside workflowsDownRepository) ''p1''))))
     = [Some ''M_Customer'', Some ''M_Orders'', Some ''X_Parse''] \<and>
   map_option (\<lambda>d. (workflows d, map mg_name (mappings d)))
       (case discoverRepositoryViaPmrep workflowListFailsHost of Inl e \<Rightarrow> None | Inr d \<Rightarrow> Some d)
     = Some ([], [Some ''m_load''])"
proof -
  have rejected:
    "authenticateRest workflowsRejectedRepository = Inr (Some ''token'')"
    "getWorkflowsViaRest workflowsRejectedRepository (Some ''token'') = Inl (Error ''socket hang up'')"
    "map mg_name (case getMappingsViaRest workflowsRejectedRepository (Some ''token'') of
                  Inl e \<Rightarrow> [] | Inr ms \<Rightarrow> ms) = [Some ''M_Customer'', Some ''M_Orders'']"
    "discoverRepositoryViaRest workflowsRejectedRepository
       = Inl (Error ''REST API discovery failed: socket hang up'')"
    by (simp_all add: rest_defs sample_defs)
  have aborted:
    "discover sampleStorage (sampleOutside workflowsRejectedRepository) ''p1''
       = (ErrorReply 500 ''REST API discovery failed: socket hang up'',
          sampleStorage\<lparr> migrationProjects := [(''p1'', sampleProject\<lparr> mp_updatedAt := 1 \<rparr>)] \<rparr>)"
    by (simp add: discover_defs rest_defs storage_defs sample_defs)
  have down: "getWorkflowsViaRest workflowsDownRepository (Some ''token'') = Inr []"
    by (simp add: rest_defs sample_defs)
  have reply: "fst (discover sampleStorage (sampleOutside workflowsDownRepository) ''p1'')
     = Reply 200 \<lparr> dr_totalObjects = 3, dr_autoMigrationPercentage = Num 67,
                   dr_workflows = 0, dr_mappings = 2, dr_sessions = 0, dr_transformations = 1,
                   dr_sources = 0, dr_targets = 0 \<rparr>"
    by (simp add: discover_defs rest_defs storage_defs sample_defs mappingObject_def
          transformationObject_def Math_round_def floor_eq_iff)
  have persisted: "map pco_objectName (map_values (powerCenterObjects
       (snd (discover sampleStorage (sampleOutside workflowsDownRepository) ''p1''))))
     = [Some ''M_Customer'', Some ''M_Orders'', Some ''X_Parse'']"
    by (simp add: discover_defs rest_defs storage_defs sample_defs mappingObject_def
          transformationObject_def numeral_2_eq_2 numeral_3_eq_3)
  have sibling: "map_option (\<lambda>d. (workflows d, map mg_name (mappings d)))
       (case discoverRepositoryViaPmrep workflowListFailsHost of Inl e \<Rightarrow> None | Inr d \<Rightarrow> Some d)
     = Some ([], [Some ''m_load''])"
    by (simp add: discoverRepositoryViaPmrep_def getWorkflowsViaPmrep_def getMappingsViaPmrep_def
          listViaPmrep_def workflowListFailsHost_def sample_mapping_parsed)
  from rejected aborted down reply persisted sibling show ?thesis
    by (simp add: sampleStorage_def)
qed

subsection \<open>Events of a pmrep discovery\<close>

text \<open>Evaluating the array issues the calls in array order and leaves them running.\<close>

lemma promiseAll_calls:
  "promiseAll calls running events \<Longrightarrow>
     \<exists>rest. events = map Issued calls @ rest \<and> promiseAll [] (running @ calls) rest"
proof (induction rule: promiseAll.induct)
  case (call calls running c events)
  then show ?case by auto
next
  case (settle c running events)
  then show ?case using promiseAll.settle by auto
next
  case resolve
  then show ?case using promiseAll.resolve by auto
qed

text \<open>Once the array is evaluated, every running command completes, each one once.\<close>

lemma promiseAll_settles:
  "promiseAll calls running events \<Longrightarrow> calls = [] \<Longrightarrow> distinct running \<Longrightarrow>
     \<exists>order. events = map Completed order \<and> set order = set running \<and> distinct order"
proof (induction rule: promiseAll.induct)
  case (call calls running c events)
  then show ?case by simp
next
  case (settle c running events)
  then obtain order where o: "events = map Completed order"
      "set order = set (remove1 c running)" "distinct order"
    by auto
  from settle.prems have "set (remove1 c running) = set running - {c}" by simp
  with o settle.hyps(1) have "set (c # order) = set running" "distinct (c # order)" by auto
  with o(1) show ?case by (metis list.simps(9))
next
  case resolve
  then show ?case by simp
qed

text \<open>Every order of completion is possible.\<close>

lemma promiseAll_any_order:
  "distinct order \<Longrightarrow> distinct running \<Longrightarrow> set order = set running \<Longrightarrow>
     promiseAll [] running (map Completed order)"
proof (induction order arbitrary: running)
  case Nil
  then show ?case using promiseAll.resolve by simp
next
  case (Cons c order)
  then have c: "c \<in> set running" by auto
  have "set order = set (remove1 c running)" using Cons.prems by auto
  moreover have "distinct (remove1 c running)" using Cons.prems by simp
  ultimately have "promiseAll [] (remove1 c running) (map Completed order)"
    using Cons.IH Cons.prems by simp
  with c show ?case using promiseAll.settle by simp
qed

lemma promiseAll_start:
  "promiseAll [] (running @ calls) rest \<Longrightarrow> promiseAll calls running (map Issued calls @ rest)"
proof (induction calls arbitrary: running)
  case Nil
  then show ?case by simp
next
  case (Cons c calls)
  then have "promiseAll calls (running @ [c]) (map Issued calls @ rest)" by simp
  then show ?case using promiseAll.call by simp
qed

lemma promiseAll_listed:
  assumes "distinct calls" "promiseAll calls [] events"
  obtains order where "distinct order" "set order = set calls"
    "events = map Issued calls @ map Completed order"
proof -
  from assms(2) obtain rest where r: "events = map Issued calls @ rest" "promiseAll [] calls rest"
    using promiseAll_calls[of calls "[]" events] by auto
  from promiseAll_settles[OF r(2) refl assms(1)] obtain order
    where "rest = map Completed order" "set order = set calls" "distinct order" by blast
  with r(1) that show thesis by simp
qed

lemma promiseAll_run:
  assumes "distinct calls" "distinct order" "set order = set calls"
  shows "promiseAll calls [] (map Issued calls @ map Completed order)"
proof -
  from assms have "promiseAll [] ([] @ calls) (map Completed order)"
    using promiseAll_any_order[of order calls] by simp
  then show ?thesis by (rule promiseAll_start)
qed

lemma listCommands_distinct: "distinct listCommands"
  by (simp add: listCommands_def)

text \<open>
  C8, as amended. The events of a CLI discovery are exactly these. After a failed connect
  no list command is issued and the discovery throws. After a successful connect the six
  list commands are issued one after the other in the fixed order workflow, mapping,
  session, transformation, source, target, all of them before any of them completes;
  then each of the six completes once, in any order; only then the discovery returns.
  Such a sequence is never sequential.
\<close>

theorem pmrep_list_commands_issued_together:
  "(discoverRepositoryViaPmrepEvents host events \<longleftrightarrow>
      (\<exists>msg. pmrep_connect host = ExecFailed msg) \<and>
        events = [Issued Connect, Completed Connect, Threw]
    \<or> (\<exists>stdout. pmrep_connect host = ExecOk stdout) \<and>
        (\<exists>order. distinct order \<and> set order = set listCommands \<and>
           events = [Issued Connect, Completed Connect] @ map Issued listCommands
                      @ map Completed order @ [Returned])) \<and>
   (discoverRepositoryViaPmrepEvents host events \<and> pmrep_connect host = ExecOk stdout
      \<longrightarrow> \<not> sequential events)"
proof -
  have char: "discoverRepositoryViaPmrepEvents host events \<longleftrightarrow>
      (\<exists>msg. pmrep_connect host = ExecFailed msg) \<and>
        events = [Issued Connect, Completed Connect, Threw]
    \<or> (\<exists>stdout. pmrep_connect host = ExecOk stdout) \<and>
        (\<exists>order. distinct order \<and> set order = set listCommands \<and>
           events = [Issued Connect, Completed Connect] @ map Issued listCommands
                      @ map Completed order @ [Returned])"
  proof
    assume "discoverRepositoryViaPmrepEvents host events"
    then show "(\<exists>msg. pmrep_connect host = ExecFailed msg) \<and>
        events = [Issued Connect, Completed Connect, Threw]
    \<or> (\<exists>stdout. pmrep_connect host = ExecOk stdout) \<and>
        (\<exists>order. distinct order \<and> set order = set listCommands \<and>
           events = [Issued Connect, Completed Connect] @ map Issued listCommands
                      @ map Completed order @ [Returned])"
    proof cases
      case (connect_failed msg)
      then show ?thesis by blast
    next
      case (connect_ok stdout listed)
      from promiseAll_listed[OF listCommands_distinct connect_ok(3)]
      obtain order where "distinct order" "set order = set listCommands"
          "listed = map Issued listCommands @ map Completed order"
        by blast
      then have "distinct order \<and> set order = set listCommands \<and>
           events = [Issued Connect, Completed Connect] @ map Issued listCommands
                      @ map Completed order @ [Returned]"
        using connect_ok(1) by simp
      then have "\<exists>order. distinct order \<and> set order = set listCommands \<and>
           events = [Issued Connect, Completed Connect] @ map Issued listCommands
                      @ map Completed order @ [Returned]"
        by (rule exI)
      moreover have "\<exists>stdout. pmrep_connect host = ExecOk stdout"
        using connect_ok(2) by (rule exI)
      ultimately show ?thesis by (intro disjI2 conjI)
    qed
  next
    assume "(\<exists>msg. pmrep_connect host = ExecFailed msg) \<and>
        events = [Issued Connect, Completed Connect, Threw]
    \<or> (\<exists>stdout. pmrep_connect host = ExecOk stdout) \<and>
        (\<exists>order. distinct order \<and> set order = set listCommands \<and>
           events = [Issued Connect, Completed Connect] @ map Issued listCommands
                      @ map Completed order @ [Returned])"
    then show "discoverRepositoryViaPmrepEvents host events"
    proof
      assume "(\<exists>msg. pmrep_connect host = ExecFailed msg) \<and>
        events = [Issued Connect, Completed Connect, Threw]"
      then show ?thesis using discoverRepositoryViaPmrepEvents.connect_failed by blast
    next
      assume "(\<exists>stdout. pmrep_connect host = ExecOk stdout) \<and>
        (\<exists>order. distinct order \<and> set order = set listCommands \<and>
           events = [Issued Connect, Completed Connect] @ map Issued listCommands
                      @ map Completed order @ [Returned])"
      then obtain stdout order where ok: "pmrep_connect host = ExecOk stdout"
        and o: "distinct order" "set order = set listCommands"
        and e: "events = [Issued Connect, Completed Connect]
                  @ (map Issued listCommands @ map Completed order) @ [Returned]"
        by auto
      from o have "promiseAll listCommands [] (map Issued listCommands @ map Completed order)"
        using promiseAll_run[OF listCommands_distinct] by simp
      from discoverRepositoryViaPmrepEvents.connect_ok[OF ok this] e show ?thesis by simp
    qed
  qed
  have nonseq: "\<not> sequential events"
    if run: "discoverRepositoryViaPmrepEvents host events" and ok: "pmrep_connect host = ExecOk stdout"
  proof -
    from run char ok obtain order where
      "events = [Issued Connect, Completed Connect] @ map Issued listCommands
                      @ map Completed order @ [Returned]"
      by auto
    then show ?thesis by (simp add: sequential_def listCommands_def)
  qed
  show ?thesis
  proof (intro conjI impI)
    show "discoverRepositoryViaPmrepEvents host events \<longleftrightarrow>
      (\<exists>msg. pmrep_connect host = ExecFailed msg) \<and>
        events = [Issued Connect, Completed Connect, Threw]
    \<or> (\<exists>stdout. pmrep_connect host = ExecOk stdout) \<and>
        (\<exists>order. distinct order \<and> set order = set listCommands \<and>
           events = [Issued Connect, Completed Connect] @ map Issued listCommands
                      @ map Completed order @ [Returned])"
      by (rule char)
  next
    assume "discoverRepositoryViaPmrepEvents host events \<and> pmrep_connect host = ExecOk stdout"
    then show "\<not> sequential events" using nonseq by blast
  qed
qed

text \<open>
  C8 at the sample host: the events with the six completions in reverse issue order are
  events of a discovery and are not sequential; so are, at the host that cannot be
  reached, the three events of a failed connect.
\<close>

theorem pmrep_list_commands_issued_together_witness:
  "pmrep_connect sampleHost = ExecOk [] \<and>
   discoverRepositoryViaPmrepEvents sampleHost reverseOrderEvents \<and>
   \<not> sequential reverseOrderEvents \<and>
   discoverRepositoryViaPmrepEvents unreachableHost [Issued Connect, Completed Connect, Threw]"
proof -
  have ok: "pmrep_connect sampleHost = ExecOk []" by (simp add: sampleHost_def)
  have failed: "pmrep_connect unreachableHost = ExecFailed ''pmrep: not found''"
    by (simp add: unreachableHost_def)
  have order: "distinct (rev listCommands) \<and> set (rev listCommands) = set listCommands \<and>
      reverseOrderEvents = [Issued Connect, Completed Connect] @ map Issued listCommands
                      @ map Completed (rev listCommands) @ [Returned]"
    using listCommands_distinct by (simp add: reverseOrderEvents_def)
  from pmrep_list_commands_issued_together[of sampleHost reverseOrderEvents "[]"] ok order
  have run: "discoverRepositoryViaPmrepEvents sampleHost reverseOrderEvents" by blast
  with pmrep_list_commands_issued_together[of sampleHost reverseOrderEvents "[]"] ok
  have "\<not> sequential reverseOrderEvents" by blast
  moreover
  from pmrep_list_commands_issued_together
         [of unreachableHost "[Issued Connect, Completed Connect, Threw]"] failed
  have "discoverRepositoryViaPmrepEvents unreachableHost [Issued Connect, Completed Connect, Threw]"
    by blast
  ultimately show ?thesis using ok run by simp
qed

text \<open>
  C8 as stated fails: at the sample host the events with the completions in issue order
  are events of a discovery and are not sequential (the mapping listing is issued while
  the workflow listing is running).
\<close>

theorem pmrep_list_commands_sequential_counterexample:
  "discoverRepositoryViaPmrepEvents sampleHost inOrderEvents \<and> \<not> sequential inOrderEvents"
proof -
  have "promiseAll listCommands [] (map Issued listCommands @ map Completed listCommands)"
    using promiseAll_run[OF listCommands_distinct listCommands_distinct] by simp
  moreover have "pmrep_connect sampleHost = ExecOk []" by (simp add: sampleHost_def)
  ultimately have "discoverRepositoryViaPmrepEvents sampleHost inOrderEvents"
    unfolding inOrderEvents_def
    using discoverRepositoryViaPmrepEvents.connect_ok
            [of sampleHost "[]" "map Issued listCommands @ map Completed listCommands"]
    by simp
  moreover have "\<not> sequential inOrderEvents"
    by (simp add: sequential_def inOrderEvents_def listCommands_def)
  ultimately show ?thesis by simp
qed

subsection \<open>Starting the sync\<close>

text \<open>
  The start-sync route never reads the sync status: for a project that exists, on a
  connection that exists, it registers one more polling task and sets the status to
  SYNCING, whatever the status was.
\<close>

lemma startSync_appends_task:
  assumes "getMigrationProject st pid = Some project"
      and "getRepositoryConnection st (mp_repositoryConnectionId project) = Some connection"
  shows "fst (startSync (st, tasks) newId now pid) = Reply 200 ''Real-time sync started successfully''"
    and "snd (snd (startSync (st, tasks) newId now pid))
         = tasks @ [\<lparr> task_projectId = mp_id project, task_interval_ms = 30000,
                      task_lifetime_ms = 86400000 \<rparr>]"
    and "map_option sy_status (getSyncStatus (fst (snd (startSync (st, tasks) newId now pid))) (mp_id project))
         = Some SYNCING"
  using assms
  by (simp_all add: startSync_def startRealTimeSync_def updateSyncStatus_def getSyncStatus_def Let_def
        map_get_map_set)

text \<open>
  C9. The claim expects at most one sync task per project: a start-sync request for a
  project whose status is SYNCING spawns no second task and returns the existing status.
  For the sample project, a first request leaves the status SYNCING and one task; a
  second request then answers with the success message, leaves the status record as it
  was, and leaves two tasks for the project.
\<close>

theorem start_sync_twice_registers_two_tasks:
  "map_option sy_status (getSyncStatus (fst (snd (startSync (sampleStorage, []) ''s1'' 1 ''p1''))) ''p1'')
     = Some SYNCING \<and>
   snd (snd (startSync (sampleStorage, []) ''s1'' 1 ''p1''))
     = [\<lparr> task_projectId = ''p1'', task_interval_ms = 30000, task_lifetime_ms = 86400000 \<rparr>] \<and>
   fst (startSync (snd (startSync (sampleStorage, []) ''s1'' 1 ''p1'')) ''s2'' 2 ''p1'')
     = Reply 200 ''Real-time sync started successfully'' \<and>
   snd (snd (startSync (snd (startSync (sampleStorage, []) ''s1'' 1 ''p1'')) ''s2'' 2 ''p1''))
     = [\<lparr> task_projectId = ''p1'', task_interval_ms = 30000, task_lifetime_ms = 86400000 \<rparr>,
        \<lparr> task_projectId = ''p1'', task_interval_ms = 30000, task_lifetime_ms = 86400000 \<rparr>] \<and>
   getSyncStatus (fst (snd (startSync (snd (startSync (sampleStorage, []) ''s1'' 1 ''p1'')) ''s2'' 2 ''p1''))) ''p1''
     = getSyncStatus (fst (snd (startSync (sampleStorage, []) ''s1'' 1 ''p1''))) ''p1''"
  by (simp add: startSync_def startRealTimeSync_def storage_defs sample_defs Let_def)

subsection \<open>Creating a project\<close>

text \<open>
  C10. Creating a migration project through the storage returns and stores a project in
  status DISCOVERY whose autoMigrationPercentage, totalObjects and migratedObjects are 0,
  whatever the payload supplies for these fields; name, description and
  repositoryConnectionId are those of the payload.
\<close>

theorem createMigrationProject_defaults:
  "mp_status (fst (createMigrationProject st newId now project)) = DISCOVERY \<and>
   mp_autoMigrationPercentage (fst (createMigrationProject st newId now project)) = Some (Num 0) \<and>
   mp_totalObjects (fst (createMigrationProject st newId now project)) = Some (Num 0) \<and>
   mp_migratedObjects (fst (createMigrationProject st newId now project)) = Some (Num 0) \<and>
   mp_name (fst (createMigrationProject st newId now project)) = ip_name project \<and>
   mp_description (fst (createMigrationProject st newId now project)) = ip_description project \<and>
   mp_repositoryConnectionId (fst (createMigrationProject st newId now project))
     = ip_repositoryConnectionId project \<and>
   getMigrationProject (snd (createMigrationProject st newId now project)) newId
     = Some (fst (createMigrationProject st newId now project))"
  by (simp add: createMigrationProject_def getMigrationProject_def Let_def map_get_map_set)

end
